theory Spec2Isabelle
  imports Main
begin

section \<open>JavaScript values as server.js sees them\<close>

text \<open>
  A parsed CSV cell is a string, a number, a boolean or null; a column the row does not
  have reads as undefined. Numbers are modelled as integers together with NaN: the
  numbers server.js computes with come from integer cells and from \<open>parseInt\<close>, and
  integer arithmetic is taken as exact (fractional cells, infinities and rounding of
  doubles are outside this model). A string is a list of code units below 256.
\<close>

datatype jsnum = NaN | Num int

datatype jsval = JUndefined | JNull | JBool bool | JNum jsnum | JStr string

datatype error = TypeError | MulterError | IOError

text \<open>Truthiness, as used by \<open>if (x)\<close>, \<open>x && y\<close>, \<open>x || y\<close> and \<open>x ? a : b\<close>.\<close>

fun truthy :: "jsval \<Rightarrow> bool" where
  "truthy JUndefined = False"
| "truthy JNull = False"
| "truthy (JBool b) = b"
| "truthy (JNum NaN) = False"
| "truthy (JNum (Num n)) = (n \<noteq> 0)"
| "truthy (JStr s) = (s \<noteq> [])"

text \<open>\<open>a || b\<close>\<close>

definition js_or :: "jsval \<Rightarrow> jsval \<Rightarrow> jsval" where
  "js_or a b = (if truthy a then a else b)"

subsection \<open>Numbers\<close>

text \<open>\<open>a - b\<close>, \<open>Math.max(a, b)\<close>, \<open>a > b\<close>, \<open>a < b\<close> and \<open>a === b\<close> on numbers: NaN
  propagates through arithmetic and every comparison with NaN is false.\<close>

fun js_sub :: "jsnum \<Rightarrow> jsnum \<Rightarrow> jsnum" where
  "js_sub (Num a) (Num b) = Num (a - b)"
| "js_sub _ _ = NaN"

fun Math_max :: "jsnum \<Rightarrow> jsnum \<Rightarrow> jsnum" where
  "Math_max (Num a) (Num b) = Num (max a b)"
| "Math_max _ _ = NaN"

fun js_gt :: "jsnum \<Rightarrow> jsnum \<Rightarrow> bool" where
  "js_gt (Num a) (Num b) = (a > b)"
| "js_gt _ _ = False"


fun js_eq_num :: "jsnum \<Rightarrow> jsnum \<Rightarrow> bool" where
  "js_eq_num (Num a) (Num b) = (a = b)"
| "js_eq_num _ _ = False"

text \<open>\<open>a === b\<close> on cell values: same type and same value, NaN equal to nothing.\<close>

fun strictEq :: "jsval \<Rightarrow> jsval \<Rightarrow> bool" where
  "strictEq (JNum a) (JNum b) = js_eq_num a b"
| "strictEq a b = (a = b)"

subsection \<open>Strings\<close>

text \<open>\<open>String.prototype.trim\<close>: the white space among the code units below 256 is
  tab, line feed, vertical tab, form feed, carriage return, space and no-break space.\<close>

definition isWhitespace :: "char \<Rightarrow> bool" where
  "isWhitespace c = (of_char c \<in> {9, 10, 11, 12, 13, 32, 160 :: nat})"

definition trim :: "string \<Rightarrow> string" where
  "trim s = rev (dropWhile isWhitespace (rev (dropWhile isWhitespace s)))"

text \<open>\<open>String.prototype.toLowerCase\<close>, one code unit at a time: A-Z and the Latin-1
  capitals (192-222 except the multiplication sign 215) move up by 32.\<close>

definition lowerChar :: "char \<Rightarrow> char" where
  "lowerChar c =
     (let n = of_char c :: nat
      in if (65 \<le> n \<and> n \<le> 90) \<or> (192 \<le> n \<and> n \<le> 222 \<and> n \<noteq> 215)
         then char_of (n + 32) else c)"

definition toLowerCase :: "string \<Rightarrow> string" where
  "toLowerCase s = map lowerChar s"

text \<open>\<open>String.prototype.includes\<close>: the needle occurs as a contiguous run.\<close>

fun startsWith :: "string \<Rightarrow> string \<Rightarrow> bool" where
  "startsWith s [] = True"
| "startsWith [] (k # ks) = False"
| "startsWith (c # cs) (k # ks) = (c = k \<and> startsWith cs ks)"

fun str_includes :: "string \<Rightarrow> string \<Rightarrow> bool" where
  "str_includes [] k = (k = [])"
| "str_includes (c # cs) k = (startsWith (c # cs) k \<or> str_includes cs k)"

text \<open>Decimal numerals, for \<open>Number.prototype.toString\<close> and template literals.\<close>

fun string_of_nat :: "nat \<Rightarrow> string" where
  "string_of_nat n =
     (if n < 10 then [char_of (48 + n)]
      else string_of_nat (n div 10) @ [char_of (48 + n mod 10)])"

declare string_of_nat.simps [simp del]

definition string_of_int :: "int \<Rightarrow> string" where
  "string_of_int i = (if i < 0 then CHR ''-'' # string_of_nat (nat (- i)) else string_of_nat (nat i))"

text \<open>\<open>x.toString()\<close>. On null and undefined the call throws; server.js only makes it
  behind a truthiness test, so those two cases are never evaluated and read as the
  empty string here.\<close>

fun toString :: "jsval \<Rightarrow> string" where
  "toString (JStr s) = s"
| "toString (JNum NaN) = ''NaN''"
| "toString (JNum (Num n)) = string_of_int n"
| "toString (JBool b) = (if b then ''true'' else ''false'')"
| "toString JNull = []"
| "toString JUndefined = []"

subsection \<open>parseInt\<close>

text \<open>\<open>parseInt(string)\<close> with no radix: skip leading white space, read an optional
  sign, switch to radix 16 after a \<open>0x\<close> or \<open>0X\<close> prefix, and read the longest run of
  digits; no digit at all gives NaN.\<close>

definition digitValue :: "char \<Rightarrow> nat option" where
  "digitValue c =
     (let n = of_char c :: nat
      in if 48 \<le> n \<and> n \<le> 57 then Some (n - 48)
         else if 97 \<le> n \<and> n \<le> 102 then Some (n - 87)
         else if 65 \<le> n \<and> n \<le> 70 then Some (n - 55)
         else None)"

definition isDigitIn :: "nat \<Rightarrow> char \<Rightarrow> bool" where
  "isDigitIn radix c = (case digitValue c of None \<Rightarrow> False | Some d \<Rightarrow> d < radix)"

definition digitsValue :: "nat \<Rightarrow> string \<Rightarrow> int" where
  "digitsValue radix ds =
     foldl (\<lambda>acc c. acc * int radix + (case digitValue c of None \<Rightarrow> 0 | Some d \<Rightarrow> int d)) 0 ds"

definition parseDigits :: "nat \<Rightarrow> int \<Rightarrow> string \<Rightarrow> jsnum" where
  "parseDigits radix sign s =
     (let ds = takeWhile (isDigitIn radix) s
      in if ds = [] then NaN else Num (sign * digitsValue radix ds))"

definition parseUnsigned :: "int \<Rightarrow> string \<Rightarrow> jsnum" where
  "parseUnsigned sign s =
     (if startsWith s ''0x'' \<or> startsWith s ''0X'' then parseDigits 16 sign (drop 2 s)
      else parseDigits 10 sign s)"

definition parseInt_string :: "string \<Rightarrow> jsnum" where
  "parseInt_string s =
     (case dropWhile isWhitespace s of
        [] \<Rightarrow> NaN
      | c # cs \<Rightarrow>
          if c = CHR ''-'' then parseUnsigned (- 1) cs
          else if c = CHR ''+'' then parseUnsigned 1 cs
          else parseUnsigned 1 (c # cs))"

text \<open>\<open>parseInt(x)\<close> converts its argument to a string first. An integer reads back as
  itself (its string is its decimal numeral); \<open>true\<close>, \<open>false\<close>, \<open>null\<close>, \<open>undefined\<close>
  and \<open>NaN\<close> start with no digit.\<close>

fun parseInt :: "jsval \<Rightarrow> jsnum" where
  "parseInt (JStr s) = parseInt_string s"
| "parseInt (JNum n) = n"
| "parseInt (JBool b) = NaN"
| "parseInt JNull = NaN"
| "parseInt JUndefined = NaN"

section \<open>Maps with insertion order\<close>

text \<open>A JavaScript \<open>Map\<close> keeps its keys in insertion order; \<open>set\<close> on a key that is
  present replaces the value where it stands, on a new key it appends.\<close>

type_synonym ('k, 'v) jsmap = "('k \<times> 'v) list"

definition map_get :: "('k, 'v) jsmap \<Rightarrow> 'k \<Rightarrow> 'v option" where
  "map_get m k = map_of m k"

fun map_set :: "('k, 'v) jsmap \<Rightarrow> 'k \<Rightarrow> 'v \<Rightarrow> ('k, 'v) jsmap" where
  "map_set [] k v = [(k, v)]"
| "map_set ((k', v') # m) k v = (if k' = k then (k, v) # m else (k', v') # map_set m k v)"

section \<open>Rows and the column resolver\<close>

text \<open>A parsed row is an object from header label to cell; a missing property reads as
  undefined.\<close>

type_synonym row = "(string \<times> jsval) list"

definition row_get :: "row \<Rightarrow> string \<Rightarrow> jsval" where
  "row_get r name = (case map_of r name of None \<Rightarrow> JUndefined | Some v \<Rightarrow> v)"

fun findColumnValue :: "row \<Rightarrow> string list \<Rightarrow> jsval" where
  "findColumnValue r [] = JNull"
| "findColumnValue r (name # names) =
     (if row_get r name \<noteq> JUndefined \<and> row_get r name \<noteq> JNull \<and> row_get r name \<noteq> JStr []
      then row_get r name
      else findColumnValue r names)"

section \<open>The global state\<close>

record comboComponent =
  cmp_msku :: string
  cmp_quantity :: int

record inventoryData =
  msku :: string
  productName :: string
  panel :: string
  status :: string
  currentStock :: jsnum
  originalStock :: jsnum
  openingStock :: jsnum
  bufferStock :: jsnum
  warehouseStock :: int
  warehouseBreakdown :: "(string, int) jsmap"

record masterData =
  skuToMsku :: "(string, string) jsmap"
  comboSkus :: "(string, comboComponent list) jsmap"
  currentInventory :: "(string, inventoryData) jsmap"
  originalInventory :: "(string, inventoryData) jsmap"

definition initialMasterData :: masterData where
  "initialMasterData =
     \<lparr>skuToMsku = [], comboSkus = [], currentInventory = [], originalInventory = []\<rparr>"

section \<open>The loaders\<close>

subsection \<open>loadMasterData\<close>

text \<open>The body of the \<open>forEach\<close> over the parsed rows; the console output is left out.\<close>

definition masterRow :: "masterData \<Rightarrow> row \<Rightarrow> masterData" where
  "masterRow md r =
     (let sku = findColumnValue r [''sku'', ''SKU'', ''Sku''];
          msku = findColumnValue r [''msku'', ''MSKU'', ''Msku'']
      in if truthy sku \<and> truthy msku \<and> \<not> strictEq sku msku
         then md\<lparr>skuToMsku := map_set (skuToMsku md) (trim (toString sku)) (trim (toString msku))\<rparr>
         else md)"

definition loadMasterData :: "row list \<Rightarrow> masterData \<Rightarrow> masterData" where
  "loadMasterData data md = foldl masterRow md data"

subsection \<open>loadComboData\<close>

text \<open>The loop over the slots \<open>SKU1\<close> .. \<open>SKU14\<close>, pushing one component per filled slot.\<close>

definition comboSlot :: "row \<Rightarrow> comboComponent list \<Rightarrow> nat \<Rightarrow> comboComponent list" where
  "comboSlot r components i =
     (let component = findColumnValue r [''SKU'' @ string_of_nat i, ''sku'' @ string_of_nat i]
      in if truthy component \<and> trim (toString component) \<noteq> []
         then components @ [\<lparr>cmp_msku = trim (toString component), cmp_quantity = 1\<rparr>]
         else components)"

definition comboRow :: "masterData \<Rightarrow> row \<Rightarrow> masterData" where
  "comboRow md r =
     (let comboSku = findColumnValue r [''Combo '', ''Combo'', ''combo''];
          st = findColumnValue r [''Status'', ''status'', ''STATUS'']
      in if truthy comboSku \<and>
            (\<not> truthy st \<or> toLowerCase (toString st) = ''combo''
               \<or> toLowerCase (toString st) = ''active'')
         then (let combo = trim (toString comboSku);
                   components = foldl (comboSlot r) [] [1 ..< 15]
               in if length components > 0
                  then md\<lparr>comboSkus := map_set (comboSkus md) combo components\<rparr>
                  else md)
         else md)"

definition loadComboData :: "row list \<Rightarrow> masterData \<Rightarrow> masterData" where
  "loadComboData data md = foldl comboRow md data"

subsection \<open>loadCurrentInventory\<close>

definition warehouseColumns :: "string list" where
  "warehouseColumns =
     [''TLCQ'', ''BLR7'', ''BLR8'', ''BOM5'', ''BOM7'', ''CCU1'', ''CCX1'', ''DEL4'', ''DEL5'',
      ''DEX3'', ''PNQ2'', ''PNQ3'', ''SDED'', ''SDEE'', ''XHJ9'']"

text \<open>One warehouse column: the pair is (\<open>warehouseStock\<close>, \<open>warehouseBreakdown\<close>).\<close>

definition warehouseStep ::
  "row \<Rightarrow> int \<times> (string, int) jsmap \<Rightarrow> string \<Rightarrow> int \<times> (string, int) jsmap" where
  "warehouseStep r acc col =
     (case parseInt (js_or (findColumnValue r [col]) (JNum (Num 0))) of
        NaN \<Rightarrow> acc
      | Num stock \<Rightarrow>
          if stock > 0 then (fst acc + stock, map_set (snd acc) col stock) else acc)"

definition warehouseScan :: "row \<Rightarrow> int \<times> (string, int) jsmap" where
  "warehouseScan r = foldl (warehouseStep r) (0, []) warehouseColumns"

definition rowOpeningStock :: "row \<Rightarrow> jsnum" where
  "rowOpeningStock r =
     parseInt (js_or (findColumnValue r [''Opening Stock'', ''opening_stock'', ''Opening'']) (JNum (Num 0)))"

definition rowBufferStock :: "row \<Rightarrow> jsnum" where
  "rowBufferStock r =
     parseInt (js_or (findColumnValue r [''Buffer Stock'', ''buffer_stock'', ''Buffer'']) (JNum (Num 0)))"

text \<open>\<open>totalStock\<close>: the opening stock, replaced by the warehouse total only when it is
  exactly 0 and that total is positive.\<close>

definition rowTotalStock :: "row \<Rightarrow> jsnum" where
  "rowTotalStock r =
     (if js_eq_num (rowOpeningStock r) (Num 0) \<and> fst (warehouseScan r) > 0
      then Num (fst (warehouseScan r))
      else rowOpeningStock r)"

fun join :: "string \<Rightarrow> string list \<Rightarrow> string" where
  "join sep [] = []"
| "join sep [x] = x"
| "join sep (x # y # ys) = x @ sep @ join sep (y # ys)"

text \<open>The object literal \<open>inventoryData\<close> built for a row whose trimmed MSKU is \<open>msquKey\<close>.\<close>

definition rowInventoryData :: "row \<Rightarrow> string \<Rightarrow> inventoryData" where
  "rowInventoryData r msquKey =
     (let pn = findColumnValue r [''Product Name'', ''product_name'', ''Product''];
          wb = snd (warehouseScan r)
      in \<lparr>msku = msquKey,
          productName = (if truthy pn then trim (toString pn) else ''Unknown Product''),
          panel = (if length (map fst wb) > 0
                   then ''Warehouses: '' @ join '', '' (map fst wb)
                   else ''Unknown''),
          status = (if js_gt (rowTotalStock r) (Num 0) then ''In Stock'' else ''Out of Stock''),
          currentStock = rowTotalStock r,
          originalStock = rowTotalStock r,
          openingStock = rowOpeningStock r,
          bufferStock = rowBufferStock r,
          warehouseStock = fst (warehouseScan r),
          warehouseBreakdown = wb\<rparr>)"

text \<open>The body of the \<open>forEach\<close> for the row at \<open>index\<close>. The working ledger receives the
  object and the snapshot a copy \<open>{ ...inventoryData }\<close>; no field of either is updated
  through the other afterwards, so both are values here. The debug output of the first
  three rows calls \<open>productName.substring\<close>, which only strings have: a truthy product
  name that is a number or a boolean throws a TypeError there, after the row was stored,
  and the rows behind it are never reached.\<close>

definition inventoryRow :: "nat \<Rightarrow> row \<Rightarrow> masterData \<Rightarrow> error option \<times> masterData" where
  "inventoryRow index r md =
     (let mskuCell = findColumnValue r [''msku'', ''MSKU'', ''Msku''];
          pn = findColumnValue r [''Product Name'', ''product_name'', ''Product''];
          md' = (if truthy mskuCell \<and> trim (toString mskuCell) \<noteq> []
                 then (let msquKey = trim (toString mskuCell);
                           inventoryData = rowInventoryData r msquKey
                       in md\<lparr>currentInventory := map_set (currentInventory md) msquKey inventoryData,
                             originalInventory := map_set (originalInventory md) msquKey inventoryData\<rparr>)
                 else md)
      in if index < 3 \<and> truthy pn \<and> (case pn of JStr s \<Rightarrow> False | _ \<Rightarrow> True)
         then (Some TypeError, md')
         else (None, md'))"

fun inventoryRows :: "nat \<Rightarrow> row list \<Rightarrow> masterData \<Rightarrow> error option \<times> masterData" where
  "inventoryRows index [] md = (None, md)"
| "inventoryRows index (r # rs) md =
     (case inventoryRow index r md of
        (Some e, md') \<Rightarrow> (Some e, md')
      | (None, md') \<Rightarrow> inventoryRows (Suc index) rs md')"

definition loadCurrentInventory :: "row list \<Rightarrow> masterData \<Rightarrow> error option \<times> masterData" where
  "loadCurrentInventory data md = inventoryRows 0 data md"

section \<open>SKU normalisation\<close>

definition cleanSku :: "jsval \<Rightarrow> string" where
  "cleanSku sku = (if truthy sku then trim (toString sku) else [])"

definition mapSkuToMsku :: "masterData \<Rightarrow> jsval \<Rightarrow> string \<Rightarrow> string" where
  "mapSkuToMsku md sku marketplace =
     (if marketplace = ''meesho'' then cleanSku sku
      else (case map_get (skuToMsku md) (cleanSku sku) of
              Some m \<Rightarrow> m
            | None \<Rightarrow> cleanSku sku))"

section \<open>Combo expansion\<close>

text \<open>\<open>masterData.comboSkus.has(sku)\<close> with the raw SKU of the order row: the keys of the
  combo table are strings, so a raw SKU that is not a string is never found.\<close>

definition comboByRaw :: "masterData \<Rightarrow> jsval \<Rightarrow> comboComponent list option" where
  "comboByRaw md sku = (case sku of JStr s \<Rightarrow> map_get (comboSkus md) s | _ \<Rightarrow> None)"

text \<open>Each \<open>has\<close> followed by \<open>get\<close> on the same key is one lookup here.\<close>

definition expandComboSku :: "masterData \<Rightarrow> jsval \<Rightarrow> string \<Rightarrow> comboComponent list" where
  "expandComboSku md sku marketplace =
     (let mappedMsku = mapSkuToMsku md sku marketplace
      in case map_get (comboSkus md) mappedMsku of
           Some components \<Rightarrow> components
         | None \<Rightarrow>
             (case comboByRaw md sku of
                Some components \<Rightarrow> components
              | None \<Rightarrow> [\<lparr>cmp_msku = mappedMsku, cmp_quantity = 1\<rparr>]))"

section \<open>Order extraction and the status gate\<close>

record orderInfo =
  oi_sku :: jsval
  oi_quantity :: jsnum
  oi_status :: jsval
  oi_orderDate :: jsval
  oi_customerLocation :: jsval
  oi_productName :: jsval

definition extractOrderInfo :: "row \<Rightarrow> string \<Rightarrow> orderInfo" where
  "extractOrderInfo order marketplace =
     (if marketplace = ''amazon'' then
        \<lparr>oi_sku = findColumnValue order [''SKU'', ''sku'', ''ASIN'', ''asin''],
         oi_quantity = parseInt (js_or (findColumnValue order [''Quantity'', ''quantity'', ''Qty'', ''qty''])
                                       (JNum (Num 1))),
         oi_status = findColumnValue order [''Order Status'', ''order-status'', ''Status'', ''status''],
         oi_orderDate = findColumnValue order [''Order Date'', ''order-date'', ''Purchase Date'', ''Date''],
         oi_customerLocation =
           findColumnValue order [''Ship City'', ''ship-city'', ''Customer State'', ''Location''],
         oi_productName = findColumnValue order [''Product Name'', ''product-name'', ''Title'', ''Item'']\<rparr>
      else if marketplace = ''flipkart'' then
        \<lparr>oi_sku = findColumnValue order [''SKU'', ''sku'', ''FSN'', ''fsn''],
         oi_quantity = parseInt (js_or (findColumnValue order [''Quantity'', ''quantity'', ''Qty'', ''qty''])
                                       (JNum (Num 1))),
         oi_status = findColumnValue order [''Order Status'', ''order-status'', ''Status'', ''status''],
         oi_orderDate = findColumnValue order [''Order Date'', ''order-date'', ''Date''],
         oi_customerLocation = findColumnValue order [''Customer State'', ''customer-state'', ''Location''],
         oi_productName = findColumnValue order [''Product Name'', ''product-name'', ''Item'']\<rparr>
      else if marketplace = ''meesho'' then
        \<lparr>oi_sku = findColumnValue order [''MSKU'', ''msku'', ''SKU'', ''sku''],
         oi_quantity = parseInt (js_or (findColumnValue order [''Quantity'', ''quantity'', ''Qty'', ''qty''])
                                       (JNum (Num 1))),
         oi_status = findColumnValue order [''Status'', ''status'', ''Order Status''],
         oi_orderDate = findColumnValue order [''Order Date'', ''order-date'', ''Date''],
         oi_customerLocation =
           findColumnValue order [''Customer Location'', ''customer-location'', ''Location''],
         oi_productName = findColumnValue order [''Product Name'', ''product-name'', ''Item'']\<rparr>
      else
        \<lparr>oi_sku = findColumnValue order
                    [''SKU'', ''sku'', ''MSKU'', ''msku'', ''Product Code'', ''Item Code''],
         oi_quantity = parseInt (js_or (findColumnValue order
                                          [''Quantity'', ''quantity'', ''Qty'', ''qty'', ''Count'', ''Amount''])
                                       (JNum (Num 1))),
         oi_status = findColumnValue order
                       [''Status'', ''status'', ''Order Status'', ''Reason for Credit Entry'', ''State''],
         oi_orderDate = findColumnValue order [''Order Date'', ''order-date'', ''Date'', ''Created Date''],
         oi_customerLocation =
           findColumnValue order [''Customer State'', ''Customer Location'', ''Location'', ''State'', ''City''],
         oi_productName =
           findColumnValue order [''Product Name'', ''product-name'', ''Title'', ''Item Name'', ''Description'']\<rparr>)"

text \<open>The quantity cell that \<open>extractOrderInfo\<close> resolves for a marketplace: the first
  of its quantity aliases that holds a value, null when none does.\<close>

definition quantityCell :: "row \<Rightarrow> string \<Rightarrow> jsval" where
  "quantityCell order marketplace =
     findColumnValue order
       (if marketplace = ''amazon'' \<or> marketplace = ''flipkart'' \<or> marketplace = ''meesho''
        then [''Quantity'', ''quantity'', ''Qty'', ''qty'']
        else [''Quantity'', ''quantity'', ''Qty'', ''qty'', ''Count'', ''Amount''])"

definition validStatuses :: "string list" where
  "validStatuses =
     [''delivered'', ''shipped'', ''ready_to_ship'', ''dispatched'',
      ''completed'', ''fulfilled'', ''out_for_delivery'', ''success'',
      ''confirmed'', ''processing'', ''packed'', ''in_transit'']"

definition invalidStatuses :: "string list" where
  "invalidStatuses = [''cancelled'', ''returned'', ''refunded'', ''rejected'', ''failed'']"

definition shouldProcessOrder :: "jsval \<Rightarrow> string \<Rightarrow> bool" where
  "shouldProcessOrder st marketplace =
     (if \<not> truthy st then False
      else (let statusLower = toLowerCase (toString st);
                hasValidStatus = list_ex (\<lambda>validStatus. str_includes statusLower validStatus) validStatuses;
                hasInvalidStatus =
                  list_ex (\<lambda>invalidStatus. str_includes statusLower invalidStatus) invalidStatuses
            in hasValidStatus \<and> \<not> hasInvalidStatus))"

section \<open>The batch processor\<close>

record processedOrder =
  po_marketplace :: string
  po_originalSku :: jsval
  po_mappedMsku :: string
  po_quantity :: int
  po_status :: jsval
  po_orderDate :: jsval
  po_customerLocation :: jsval
  po_productName :: jsval
  po_isComboComponent :: bool

text \<open>The three accumulators of \<open>processOrderData\<close>. Quantities in the map are sums of
  positive integers: a quantity enters only after the test \<open>quantity > 0\<close>, which NaN
  fails.\<close>

record batch =
  processedOrders :: "processedOrder list"
  msquQuantityMap :: "(string, int) jsmap"
  unmappedSkus :: "jsval list"

text \<open>\<open>Set.prototype.add\<close>\<close>

definition set_add :: "'a list \<Rightarrow> 'a \<Rightarrow> 'a list" where
  "set_add xs x = (if x \<in> set xs then xs else xs @ [x])"

text \<open>The body of \<open>expandedItems.forEach\<close>, for the order \<open>oi\<close> of quantity \<open>quantity\<close>
  whose expansion has \<open>n\<close> items.\<close>

definition orderItem :: "string \<Rightarrow> orderInfo \<Rightarrow> int \<Rightarrow> nat \<Rightarrow> batch \<Rightarrow> comboComponent \<Rightarrow> batch" where
  "orderItem marketplace oi quantity n b item =
     (let m = cmp_msku item;
          itemQuantity = cmp_quantity item * quantity
      in if m \<noteq> []
         then (let currentQty = (case map_get (msquQuantityMap b) m of None \<Rightarrow> 0 | Some q \<Rightarrow> q)
               in b\<lparr>msquQuantityMap := map_set (msquQuantityMap b) m (currentQty + itemQuantity),
                     processedOrders := processedOrders b @
                       [\<lparr>po_marketplace = marketplace,
                         po_originalSku = oi_sku oi,
                         po_mappedMsku = m,
                         po_quantity = itemQuantity,
                         po_status = oi_status oi,
                         po_orderDate = oi_orderDate oi,
                         po_customerLocation = oi_customerLocation oi,
                         po_productName = oi_productName oi,
                         po_isComboComponent = (n > 1)\<rparr>]\<rparr>)
         else b\<lparr>unmappedSkus := set_add (unmappedSkus b) (oi_sku oi)\<rparr>)"

text \<open>The body of \<open>orderData.forEach\<close>.\<close>

definition orderRow :: "masterData \<Rightarrow> string \<Rightarrow> batch \<Rightarrow> row \<Rightarrow> batch" where
  "orderRow md marketplace b order =
     (let oi = extractOrderInfo order marketplace
      in if shouldProcessOrder (oi_status oi) marketplace
         then (case oi_quantity oi of
                 NaN \<Rightarrow> b
               | Num quantity \<Rightarrow>
                   if truthy (oi_sku oi) \<and> quantity > 0
                   then (let expandedItems = expandComboSku md (oi_sku oi) marketplace
                         in foldl (orderItem marketplace oi quantity (length expandedItems)) b expandedItems)
                   else b)
         else b)"

definition processOrderData :: "masterData \<Rightarrow> row list \<Rightarrow> string \<Rightarrow> batch" where
  "processOrderData md orderData marketplace =
     foldl (orderRow md marketplace)
       \<lparr>processedOrders = [], msquQuantityMap = [], unmappedSkus = []\<rparr> orderData"

section \<open>Reconciliation and reset\<close>

record inventoryUpdate =
  upd_msku :: string
  upd_originalStock :: jsnum
  upd_soldQuantity :: int
  upd_newStock :: jsnum
  upd_stockReduced :: jsnum
  upd_panel :: string
  upd_status :: string
  upd_isOutOfStock :: bool
  upd_notInInventory :: bool

text \<open>The body of \<open>msquQuantityMap.forEach\<close>: the pair is the state and the list
  \<open>inventoryUpdates\<close> so far. An entry found in the ledger has no \<open>notInInventory\<close>
  property, which reads as false.\<close>

definition salesEntry ::
  "masterData \<times> inventoryUpdate list \<Rightarrow> string \<times> int \<Rightarrow> masterData \<times> inventoryUpdate list" where
  "salesEntry acc entry =
     (let md = fst acc; inventoryUpdates = snd acc;
          m = fst entry; soldQuantity = snd entry
      in case map_get (currentInventory md) m of
           Some inventoryItem \<Rightarrow>
             (let newStock = Math_max (Num 0) (js_sub (currentStock inventoryItem) (Num soldQuantity));
                  stockDifference = js_sub (currentStock inventoryItem) newStock
              in (md\<lparr>currentInventory :=
                       map_set (currentInventory md) m (inventoryItem\<lparr>currentStock := newStock\<rparr>)\<rparr>,
                  inventoryUpdates @
                    [\<lparr>upd_msku = m,
                      upd_originalStock = originalStock inventoryItem,
                      upd_soldQuantity = soldQuantity,
                      upd_newStock = newStock,
                      upd_stockReduced = stockDifference,
                      upd_panel = panel inventoryItem,
                      upd_status = status inventoryItem,
                      upd_isOutOfStock = js_eq_num newStock (Num 0),
                      upd_notInInventory = False\<rparr>]))
         | None \<Rightarrow>
             (md,
              inventoryUpdates @
                [\<lparr>upd_msku = m,
                  upd_originalStock = Num 0,
                  upd_soldQuantity = soldQuantity,
                  upd_newStock = Num 0,
                  upd_stockReduced = Num 0,
                  upd_panel = ''Not Found'',
                  upd_status = ''Unknown'',
                  upd_isOutOfStock = True,
                  upd_notInInventory = True\<rparr>]))"

text \<open>\<open>Array.prototype.sort\<close> with a comparator is stable: \<open>a\<close> goes before \<open>b\<close> when
  \<open>cmp a b < 0\<close>, and elements that compare equal keep their order. Insertion from the
  right is one such sort.\<close>

fun insertBy :: "('a \<Rightarrow> 'a \<Rightarrow> int) \<Rightarrow> 'a \<Rightarrow> 'a list \<Rightarrow> 'a list" where
  "insertBy cmp x [] = [x]"
| "insertBy cmp x (y # ys) = (if cmp x y \<le> 0 then x # y # ys else y # insertBy cmp x ys)"

definition sortBy :: "('a \<Rightarrow> 'a \<Rightarrow> int) \<Rightarrow> 'a list \<Rightarrow> 'a list" where
  "sortBy cmp xs = foldr (insertBy cmp) xs []"

definition updateInventoryWithSales ::
  "(string, int) jsmap \<Rightarrow> masterData \<Rightarrow> inventoryUpdate list \<times> masterData" where
  "updateInventoryWithSales quantityMap md =
     (let acc = foldl salesEntry (md, []) quantityMap
      in (sortBy (\<lambda>a b. upd_soldQuantity b - upd_soldQuantity a) (snd acc), fst acc))"

definition resetInventory :: "masterData \<Rightarrow> masterData" where
  "resetInventory md =
     md\<lparr>currentInventory :=
          foldl (\<lambda>cur entry. map_set cur (fst entry) (snd entry))
            (currentInventory md) (originalInventory md)\<rparr>"

text \<open>The two operations that change the working ledger after a load, for stating what
  any sequence of them does: a reconciliation pass with a sold-quantity map, and a reset.\<close>

datatype ledgerOp = Reconcile "(string, int) jsmap" | Reset

fun applyOp :: "masterData \<Rightarrow> ledgerOp \<Rightarrow> masterData" where
  "applyOp md (Reconcile quantityMap) = snd (updateInventoryWithSales quantityMap md)"
| "applyOp md Reset = resetInventory md"

section \<open>The route \<open>POST /process-orders\<close>\<close>

definition detectMarketplace :: "row list \<Rightarrow> string" where
  "detectMarketplace orderData =
     (case orderData of
        [] \<Rightarrow> ''unknown''
      | firstRow # rest \<Rightarrow>
          (let columns = map (\<lambda>k. toLowerCase k) (map fst firstRow)
           in if list_ex (\<lambda>col. str_includes col ''msku'') columns then ''meesho''
              else if list_ex (\<lambda>col. str_includes col ''asin'' \<or> str_includes col ''amazon'') columns
                then ''amazon''
              else if list_ex (\<lambda>col. str_includes col ''flipkart'' \<or> str_includes col ''fsn'') columns
                then ''flipkart''
              else if list_ex (\<lambda>col. str_includes col ''sku'') columns then ''generic''
              else ''unknown''))"

record marketplaceStats =
  ms_ordersProcessed :: nat
  ms_uniqueMskus :: nat
  ms_totalQuantity :: int
  ms_unmappedSkus :: nat

record summary =
  totalOrdersProcessed :: nat
  uniqueMskusAffected :: nat
  totalQuantitySold :: int
  unmappedSkusCount :: nat
  outOfStockItems :: nat
  sum_marketplaceSummary :: "(string, marketplaceStats) jsmap"

text \<open>An uploaded file as the handler gets to see it through \<open>fs.readFileSync\<close> and
  \<open>parseCSV\<close>: its parsed rows, or the failure of the read.\<close>

datatype upload = Unreadable | Parsed "row list"

text \<open>A request to the route. A body that is not multipart leaves \<open>req.files\<close> undefined. A
  multipart body carries its file parts (the parts with a file name) in the order sent,
  each under a field name. Storing the uploads is taken to succeed.\<close>

datatype request = NonMultipart | Multipart "(string \<times> upload) list"

text \<open>The response: status 400 with the missing-master-data error, status 500 (from the
  \<open>catch\<close> of the handler or from the error middleware), or the success body
  (\<open>processedOrders\<close> cut to its first 100 entries).\<close>

datatype response =
    BadRequest
  | ServerError
  | Success summary "inventoryUpdate list" "processedOrder list" "jsval list"

text \<open>The middleware \<open>upload.fields\<close> of the multer package, which server.js calls with the
  limits below and does not contain. It keeps, per field name, the number of files still
  allowed; a file whose field is not listed or has none left ends the request with an
  error, which the error middleware answers 500 without the handler being run. Otherwise
  \<open>req.files\<close> maps each field name that occurred to its files, in order.\<close>

definition routeFields :: "(string, nat) jsmap" where
  "routeFields = [(''masterFile'', 1), (''orderFiles'', 10)]"

fun uploadFields ::
  "(string, nat) jsmap \<Rightarrow> (string, upload list) jsmap \<Rightarrow> (string \<times> upload) list
     \<Rightarrow> error + (string, upload list) jsmap" where
  "uploadFields filesLeft files [] = Inr files"
| "uploadFields filesLeft files (part # parts) =
     (case map_get filesLeft (fst part) of
        None \<Rightarrow> Inl MulterError
      | Some n \<Rightarrow>
          if n = 0 then Inl MulterError
          else uploadFields (map_set filesLeft (fst part) (n - 1))
                 (map_set files (fst part)
                    ((case map_get files (fst part) of None \<Rightarrow> [] | Some fs \<Rightarrow> fs) @ [snd part]))
                 parts)"

record requestAcc =
  allProcessedOrders :: "processedOrder list"
  combinedMsquMap :: "(string, int) jsmap"
  allUnmappedSkus :: "jsval list"
  marketplaceSummary :: "(string, marketplaceStats) jsmap"

text \<open>\<open>combinedMsquMap.set(msku, (combinedMsquMap.get(msku) || 0) + qty)\<close>\<close>

definition combineEntry :: "(string, int) jsmap \<Rightarrow> string \<times> int \<Rightarrow> (string, int) jsmap" where
  "combineEntry combined entry =
     (let currentQty = (case map_get combined (fst entry) of None \<Rightarrow> 0 | Some q \<Rightarrow> q)
      in map_set combined (fst entry) (currentQty + snd entry))"

text \<open>The body of the loop over \<open>req.files.orderFiles\<close>.\<close>

definition orderFile :: "masterData \<Rightarrow> requestAcc \<Rightarrow> row list \<Rightarrow> requestAcc" where
  "orderFile md acc orderData =
     (let marketplace = detectMarketplace orderData;
          result = processOrderData md orderData marketplace
      in \<lparr>allProcessedOrders = allProcessedOrders acc @ processedOrders result,
          combinedMsquMap = foldl combineEntry (combinedMsquMap acc) (msquQuantityMap result),
          allUnmappedSkus = foldl set_add (allUnmappedSkus acc) (unmappedSkus result),
          marketplaceSummary =
            map_set (marketplaceSummary acc) marketplace
              \<lparr>ms_ordersProcessed = length (processedOrders result),
               ms_uniqueMskus = length (msquQuantityMap result),
               ms_totalQuantity = foldl (\<lambda>sum qty. sum + qty) 0 (map snd (msquQuantityMap result)),
               ms_unmappedSkus = length (unmappedSkus result)\<rparr>\<rparr>)"

text \<open>The loop over \<open>req.files.orderFiles\<close>: a file that cannot be read throws, which ends
  the loop.\<close>

fun orderFilesLoop :: "masterData \<Rightarrow> requestAcc \<Rightarrow> upload list \<Rightarrow> error + requestAcc" where
  "orderFilesLoop md acc [] = Inr acc"
| "orderFilesLoop md acc (Unreadable # files) = Inl IOError"
| "orderFilesLoop md acc (Parsed orderData # files) = orderFilesLoop md (orderFile md acc orderData) files"

text \<open>The handler from \<open>resetInventory()\<close> on, reached once the master-data check has
  passed. An exception in the loop is caught and answered 500: the reset has been done by
  then, the reconciliation has not. (The removal of the uploaded files at the end is taken
  to succeed; it comes after the reconciliation.)\<close>

definition processOrdersBody :: "upload list \<Rightarrow> masterData \<Rightarrow> response \<times> masterData" where
  "processOrdersBody orderUploads md =
     (let md1 = resetInventory md
      in case orderFilesLoop md1
                \<lparr>allProcessedOrders = [], combinedMsquMap = [], allUnmappedSkus = [],
                 marketplaceSummary = []\<rparr> orderUploads of
           Inl e \<Rightarrow> (ServerError, md1)
         | Inr acc \<Rightarrow>
             (let res = updateInventoryWithSales (combinedMsquMap acc) md1;
                  inventoryUpdates = fst res
              in (Success
                    \<lparr>totalOrdersProcessed = length (allProcessedOrders acc),
                     uniqueMskusAffected = length (combinedMsquMap acc),
                     totalQuantitySold = foldl (\<lambda>sum qty. sum + qty) 0 (map snd (combinedMsquMap acc)),
                     unmappedSkusCount = length (allUnmappedSkus acc),
                     outOfStockItems = length (filter upd_isOutOfStock inventoryUpdates),
                     sum_marketplaceSummary = marketplaceSummary acc\<rparr>
                    inventoryUpdates
                    (take 100 (allProcessedOrders acc))
                    (allUnmappedSkus acc),
                  snd res)))"

text \<open>\<open>req.files.masterFile && req.files.masterFile[0]\<close>, and the files of
  \<open>req.files.orderFiles\<close> (none when the field is absent).\<close>

definition masterUpload :: "(string, upload list) jsmap \<Rightarrow> upload option" where
  "masterUpload files =
     (case map_get files ''masterFile'' of
        None \<Rightarrow> None
      | Some fs \<Rightarrow> (case fs of [] \<Rightarrow> None | f # rest \<Rightarrow> Some f))"

definition orderUploads :: "(string, upload list) jsmap \<Rightarrow> upload list" where
  "orderUploads files = (case map_get files ''orderFiles'' of None \<Rightarrow> [] | Some fs \<Rightarrow> fs)"

text \<open>The handler, given \<open>req.files\<close>: an uploaded master file is read and loaded first (a
  failed read is caught and answered 500); with no upload and an empty mapping table the
  request is answered 400 at once. Both returns come before the reset.\<close>

definition handleProcessOrders ::
  "(string, upload list) jsmap \<Rightarrow> masterData \<Rightarrow> response \<times> masterData" where
  "handleProcessOrders files md =
     (case masterUpload files of
        Some Unreadable \<Rightarrow> (ServerError, md)
      | Some (Parsed data) \<Rightarrow> processOrdersBody (orderUploads files) (loadMasterData data md)
      | None \<Rightarrow>
          if length (skuToMsku md) = 0 then (BadRequest, md)
          else processOrdersBody (orderUploads files) md)"

text \<open>The route. Without a multipart body the handler runs with \<open>req.files\<close> undefined,
  and its first line throws a TypeError inside the \<open>try\<close>, answered 500 by the \<open>catch\<close>. A
  multipart body goes through the upload middleware first.\<close>

definition processOrders :: "request \<Rightarrow> masterData \<Rightarrow> response \<times> masterData" where
  "processOrders req md =
     (case req of
        NonMultipart \<Rightarrow> (ServerError, md)
      | Multipart parts \<Rightarrow>
          (case uploadFields routeFields [] parts of
             Inl e \<Rightarrow> (ServerError, md)
           | Inr files \<Rightarrow> handleProcessOrders files md))"

text \<open>For stating what a request does, in terms of its parts: whether the parts are within
  the upload limits of the route, the master file among them, and the order files among
  them.\<close>

definition withinLimits :: "(string \<times> upload) list \<Rightarrow> bool" where
  "withinLimits parts \<longleftrightarrow>
     list_all (\<lambda>part. fst part = ''masterFile'' \<or> fst part = ''orderFiles'') parts
     \<and> length (filter (\<lambda>part. fst part = ''masterFile'') parts) \<le> 1
     \<and> length (filter (\<lambda>part. fst part = ''orderFiles'') parts) \<le> 10"

definition masterPart :: "(string \<times> upload) list \<Rightarrow> upload option" where
  "masterPart parts =
     (case filter (\<lambda>part. fst part = ''masterFile'') parts of
        [] \<Rightarrow> None
      | part # rest \<Rightarrow> Some (snd part))"

definition orderParts :: "(string \<times> upload) list \<Rightarrow> upload list" where
  "orderParts parts = map snd (filter (\<lambda>part. fst part = ''orderFiles'') parts)"

text \<open>Whether a request within the limits gets as far as the reset: its master file, if it
  has one, can be read, and without a master file the mapping table is not empty.\<close>

definition reachesReset :: "(string \<times> upload) list \<Rightarrow> masterData \<Rightarrow> bool" where
  "reachesReset parts md =
     (case masterPart parts of
        Some Unreadable \<Rightarrow> False
      | Some (Parsed data) \<Rightarrow> True
      | None \<Rightarrow> skuToMsku md \<noteq> [])"

text \<open>The sold quantities a request aggregates when all its order files can be read: the
  combined map that the handler builds from them, with the mapping and combo tables as
  they stand once the request's master file, if it has one, is loaded.\<close>

fun parsedRows :: "upload list \<Rightarrow> row list list" where
  "parsedRows [] = []"
| "parsedRows (Unreadable # files) = parsedRows files"
| "parsedRows (Parsed orderData # files) = orderData # parsedRows files"

definition requestQuantities :: "(string \<times> upload) list \<Rightarrow> masterData \<Rightarrow> (string, int) jsmap" where
  "requestQuantities parts md =
     combinedMsquMap
       (foldl (orderFile (case masterPart parts of
                            Some (Parsed data) \<Rightarrow> loadMasterData data md
                          | _ \<Rightarrow> md))
          \<lparr>allProcessedOrders = [], combinedMsquMap = [], allUnmappedSkus = [],
           marketplaceSummary = []\<rparr> (parsedRows (orderParts parts)))"

text \<open>The working ledger and the snapshot are filled together by the loader, and nothing
  else adds a key to either: their keys are the same, in the same order.\<close>

definition ledgerAligned :: "masterData \<Rightarrow> bool" where
  "ledgerAligned md \<longleftrightarrow>
     distinct (map fst (originalInventory md))
     \<and> map fst (currentInventory md) = map fst (originalInventory md)"

section \<open>Properties\<close>

subsection \<open>Maps and strings\<close>

lemma map_of_map_set: "map_of (map_set m k v) = (map_of m)(k \<mapsto> v)"
  by (induction m) (auto simp: fun_eq_iff)

lemma map_get_map_set: "map_get (map_set m k v) k' = (if k' = k then Some v else map_get m k')"
  by (simp add: map_get_def map_of_map_set)

lemma keys_map_set:
  "map fst (map_set m k v) = (if k \<in> set (map fst m) then map fst m else map fst m @ [k])"
  by (induction m) (auto simp: rev_image_eqI)

lemma map_set_same: "map_of m k = Some v \<Longrightarrow> map_set m k v = m"
  by (induction m) (auto split: if_splits)

lemma startsWith_iff: "startsWith s k \<longleftrightarrow> (\<exists>ss. s = k @ ss)"
  by (induction s k rule: startsWith.induct) auto

lemma str_includes_iff: "str_includes s k \<longleftrightarrow> (\<exists>ps ss. s = ps @ k @ ss)"
proof (induction s)
  case Nil
  then show ?case by auto
next
  case (Cons c cs)
  show ?case
  proof
    assume "str_includes (c # cs) k"
    then consider "startsWith (c # cs) k" | "str_includes cs k" by auto
    then show "\<exists>ps ss. c # cs = ps @ k @ ss"
    proof cases
      case 1
      then obtain ss where "c # cs = k @ ss" by (auto simp: startsWith_iff)
      then have "c # cs = [] @ k @ ss" by simp
      then show ?thesis by blast
    next
      case 2
      then obtain ps ss where "cs = ps @ k @ ss" using Cons.IH by blast
      then have "c # cs = (c # ps) @ k @ ss" by simp
      then show ?thesis by blast
    qed
  next
    assume "\<exists>ps ss. c # cs = ps @ k @ ss"
    then obtain ps ss where eq: "c # cs = ps @ k @ ss" by blast
    show "str_includes (c # cs) k"
    proof (cases ps)
      case Nil
      with eq have "startsWith (c # cs) k" by (auto simp: startsWith_iff)
      then show ?thesis by simp
    next
      case (Cons p ps')
      with eq have "cs = ps' @ k @ ss" by simp
      then have "str_includes cs k" using Cons.IH by blast
      then show ?thesis by simp
    qed
  qed
qed

lemma includes_lower_iff:
  "str_includes (toLowerCase s) k \<longleftrightarrow> (\<exists>ps w ss. s = ps @ w @ ss \<and> toLowerCase w = k)"
proof -
  have "(\<exists>ps ss. map lowerChar s = ps @ k @ ss) \<longleftrightarrow>
        (\<exists>ps w ss. s = ps @ w @ ss \<and> map lowerChar w = k)"
  proof
    assume "\<exists>ps ss. map lowerChar s = ps @ k @ ss"
    then obtain ps ss where "map lowerChar s = ps @ (k @ ss)" by auto
    then obtain a b where ab: "s = a @ b" "map lowerChar a = ps" "map lowerChar b = k @ ss"
      by (metis map_eq_append_conv)
    then obtain w c where "b = w @ c" "map lowerChar w = k" "map lowerChar c = ss"
      by (metis map_eq_append_conv)
    with ab show "\<exists>ps w ss. s = ps @ w @ ss \<and> map lowerChar w = k" by blast
  next
    assume "\<exists>ps w ss. s = ps @ w @ ss \<and> map lowerChar w = k"
    then obtain ps w ss where "s = ps @ w @ ss" "map lowerChar w = k" by blast
    then have "map lowerChar s = map lowerChar ps @ k @ map lowerChar ss" by simp
    then show "\<exists>ps ss. map lowerChar s = ps @ k @ ss" by blast
  qed
  then show ?thesis by (simp add: str_includes_iff toLowerCase_def)
qed

subsection \<open>Normalisation\<close>

text \<open>
  Claim C4, as amended. For the marketplace \<open>meesho\<close>, \<open>mapSkuToMsku\<close> returns the trimmed
  string form of the SKU (the empty string for a falsy SKU), whatever the mapping table
  holds; the result equals the input exactly when the input is a string without white
  space at either end.
\<close>

theorem C4_meesho_trimmed:
  "mapSkuToMsku md sku ''meesho'' = (if truthy sku then trim (toString sku) else [])
   \<and> (JStr (mapSkuToMsku md sku ''meesho'') = sku \<longleftrightarrow> (\<exists>s. sku = JStr s \<and> trim s = s))"
  by (cases sku) (auto simp: mapSkuToMsku_def cleanSku_def trim_def)

text \<open>C4 at the SKU \<open>M1\<close>, which has no surrounding white space, in a state whose mapping
  table sends \<open>M1\<close> to \<open>X9\<close>: for meesho it is returned as it is.\<close>

theorem C4_meesho_trimmed_witness:
  "trim ''M1'' = ''M1''
   \<and> skuToMsku (loadMasterData [[(''sku'', JStr ''M1''), (''msku'', JStr ''X9'')]] initialMasterData)
       = [(''M1'', ''X9'')]
   \<and> JStr (mapSkuToMsku
              (loadMasterData [[(''sku'', JStr ''M1''), (''msku'', JStr ''X9'')]] initialMasterData)
              (JStr ''M1'') ''meesho'') = JStr ''M1''"
proof -
  have t: "trim ''M1'' = ''M1''" by code_simp
  have m: "skuToMsku (loadMasterData [[(''sku'', JStr ''M1''), (''msku'', JStr ''X9'')]] initialMasterData)
       = [(''M1'', ''X9'')]" by code_simp
  from t C4_meesho_trimmed[of
      "loadMasterData [[(''sku'', JStr ''M1''), (''msku'', JStr ''X9'')]] initialMasterData" "JStr ''M1''"]
  have "JStr (mapSkuToMsku
              (loadMasterData [[(''sku'', JStr ''M1''), (''msku'', JStr ''X9'')]] initialMasterData)
              (JStr ''M1'') ''meesho'') = JStr ''M1''" by blast
  with t m show ?thesis by blast
qed

text \<open>Claim C4 as stated fails: the SKU \<open>A\<close> followed by a space comes back without the
  space.\<close>

theorem C4_meesho_identity_counterexample:
  "mapSkuToMsku initialMasterData (JStr ''A '') ''meesho'' \<noteq> ''A ''"
  by code_simp

subsection \<open>The status gate\<close>

text \<open>The falsy statuses other than null and undefined are \<open>false\<close>, NaN, 0 and the empty
  string; none of their strings holds a keyword, so the early return agrees with the
  keyword test on them.\<close>

lemma falsy_closed:
  "\<not> list_ex (\<lambda>v. str_includes (toLowerCase (toString (JBool False))) v) validStatuses"
  "\<not> list_ex (\<lambda>v. str_includes (toLowerCase (toString (JNum NaN))) v) validStatuses"
  "\<not> list_ex (\<lambda>v. str_includes (toLowerCase (toString (JNum (Num 0)))) v) validStatuses"
  "\<not> list_ex (\<lambda>v. str_includes (toLowerCase (toString (JStr []))) v) validStatuses"
  by code_simp+

lemma falsy_no_valid:
  assumes "\<not> truthy st" "st \<noteq> JNull" "st \<noteq> JUndefined"
  shows "\<not> list_ex (\<lambda>v. str_includes (toLowerCase (toString st)) v) validStatuses"
proof (cases st)
  case (JBool b)
  with assms have "st = JBool False" by simp
  then show ?thesis using falsy_closed(1) by simp
next
  case (JNum x)
  with assms have "st = JNum NaN \<or> st = JNum (Num 0)" by (cases x) auto
  then show ?thesis using falsy_closed(2,3) by auto
next
  case (JStr s)
  with assms have "st = JStr []" by simp
  then show ?thesis using falsy_closed(4) by simp
qed (use assms in auto)

lemma shouldProcessOrder_iff:
  "shouldProcessOrder st mk \<longleftrightarrow>
     truthy st \<and> (\<exists>k \<in> set validStatuses. \<exists>ps w ss. toString st = ps @ w @ ss \<and> toLowerCase w = k)
       \<and> \<not> (\<exists>k \<in> set invalidStatuses. \<exists>ps w ss. toString st = ps @ w @ ss \<and> toLowerCase w = k)"
  by (simp add: shouldProcessOrder_def Let_def list_ex_iff includes_lower_iff)

text \<open>
  Claim C5. \<open>shouldProcessOrder\<close> returns false when the status is absent (null or
  undefined). For every other status it returns true exactly when the status string
  contains, case-insensitively, some keyword of \<open>validStatuses\<close> and no keyword of
  \<open>invalidStatuses\<close>, where a string contains a keyword case-insensitively when one of
  its contiguous runs lower-cases to the keyword. Hence a status that contains a negative
  keyword is rejected whatever else it contains, as is \<open>cancelled - delivered\<close>.
\<close>

theorem C5_status_gate:
  "shouldProcessOrder JNull mk = False \<and> shouldProcessOrder JUndefined mk = False
   \<and> (st \<noteq> JNull \<and> st \<noteq> JUndefined \<longrightarrow>
        (shouldProcessOrder st mk \<longleftrightarrow>
           (\<exists>k \<in> set validStatuses. \<exists>ps w ss. toString st = ps @ w @ ss \<and> toLowerCase w = k)
           \<and> \<not> (\<exists>k \<in> set invalidStatuses. \<exists>ps w ss. toString st = ps @ w @ ss \<and> toLowerCase w = k)))
   \<and> ((\<exists>k \<in> set invalidStatuses. \<exists>ps w ss. toString st = ps @ w @ ss \<and> toLowerCase w = k)
        \<longrightarrow> shouldProcessOrder st mk = False)
   \<and> shouldProcessOrder (JStr ''cancelled - delivered'') mk = False"
proof -
  have a: "shouldProcessOrder JNull mk = False" "shouldProcessOrder JUndefined mk = False"
    by (simp_all add: shouldProcessOrder_def)
  have b: "shouldProcessOrder st mk \<longleftrightarrow>
           (\<exists>k \<in> set validStatuses. \<exists>ps w ss. toString st = ps @ w @ ss \<and> toLowerCase w = k)
           \<and> \<not> (\<exists>k \<in> set invalidStatuses. \<exists>ps w ss. toString st = ps @ w @ ss \<and> toLowerCase w = k)"
    if nn: "st \<noteq> JNull" "st \<noteq> JUndefined"
  proof (cases "truthy st")
    case True
    then show ?thesis by (simp add: shouldProcessOrder_iff)
  next
    case False
    from falsy_no_valid[OF False nn]
    have "\<not> (\<exists>k \<in> set validStatuses. \<exists>ps w ss. toString st = ps @ w @ ss \<and> toLowerCase w = k)"
      by (simp add: list_ex_iff includes_lower_iff)
    with False show ?thesis by (simp add: shouldProcessOrder_iff)
  qed
  have c: "shouldProcessOrder st mk = False"
    if "\<exists>k \<in> set invalidStatuses. \<exists>ps w ss. toString st = ps @ w @ ss \<and> toLowerCase w = k"
    using that by (simp add: shouldProcessOrder_iff)
  have d: "shouldProcessOrder (JStr ''cancelled - delivered'') mk = False"
    unfolding shouldProcessOrder_def by code_simp
  from a b c d show ?thesis by blast
qed

text \<open>C5 at \<open>Cancelled - Delivered\<close>, which holds the negative keyword \<open>cancelled\<close> and is
  rejected, next to \<open>Shipped\<close>, which is accepted.\<close>

theorem C5_status_gate_witness:
  "JStr ''Cancelled - Delivered'' \<noteq> JNull \<and> JStr ''Cancelled - Delivered'' \<noteq> JUndefined
   \<and> (\<exists>k \<in> set invalidStatuses. \<exists>ps w ss.
         toString (JStr ''Cancelled - Delivered'') = ps @ w @ ss \<and> toLowerCase w = k)
   \<and> shouldProcessOrder (JStr ''Cancelled - Delivered'') ''amazon'' = False
   \<and> (\<exists>k \<in> set validStatuses. \<exists>ps w ss.
         toString (JStr ''Shipped'') = ps @ w @ ss \<and> toLowerCase w = k)
   \<and> shouldProcessOrder (JStr ''Shipped'') ''amazon''"
proof -
  have neg: "\<exists>k \<in> set invalidStatuses. \<exists>ps w ss.
         toString (JStr ''Cancelled - Delivered'') = ps @ w @ ss \<and> toLowerCase w = k"
  proof -
    have "''cancelled'' \<in> set invalidStatuses" by (simp add: invalidStatuses_def)
    moreover have "toString (JStr ''Cancelled - Delivered'') = [] @ ''Cancelled'' @ '' - Delivered''"
      by simp
    moreover have "toLowerCase ''Cancelled'' = ''cancelled''" by code_simp
    ultimately show ?thesis by blast
  qed
  have pos: "\<exists>k \<in> set validStatuses. \<exists>ps w ss.
         toString (JStr ''Shipped'') = ps @ w @ ss \<and> toLowerCase w = k"
  proof -
    have "''shipped'' \<in> set validStatuses" by (simp add: validStatuses_def)
    moreover have "toString (JStr ''Shipped'') = [] @ ''Shipped'' @ []" by simp
    moreover have "toLowerCase ''Shipped'' = ''shipped''" by code_simp
    ultimately show ?thesis by blast
  qed
  have shipped: "shouldProcessOrder (JStr ''Shipped'') ''amazon''"
    unfolding shouldProcessOrder_def by code_simp
  from neg pos shipped
    C5_status_gate[of "''amazon''" "JStr ''Cancelled - Delivered''"]
  show ?thesis by simp
qed


subsection \<open>Order extraction\<close>

text \<open>
  Claim C8, as amended. For every order row and every marketplace tag, the quantity that
  \<open>extractOrderInfo\<close> extracts is 1 whenever the quantity cell is absent (no quantity
  alias holds a value) or falsy; a truthy cell is handed to \<open>parseInt\<close> and the quantity
  is what \<open>parseInt\<close> returns for it.
\<close>

theorem C8_quantity_default:
  "oi_quantity (extractOrderInfo order mk) =
     (if truthy (quantityCell order mk) then parseInt (quantityCell order mk) else Num 1)
   \<and> (quantityCell order mk = JNull \<longrightarrow> oi_quantity (extractOrderInfo order mk) = Num 1)"
  by (simp add: extractOrderInfo_def quantityCell_def js_or_def)

text \<open>Claim C8 as stated fails: a quantity cell \<open>abc\<close> cannot be parsed as an integer,
  and the extracted quantity is NaN, not 1.\<close>

theorem C8_unparseable_counterexample:
  "quantityCell [(''Quantity'', JStr ''abc'')] ''amazon'' = JStr ''abc''
   \<and> parseInt (JStr ''abc'') = NaN
   \<and> oi_quantity (extractOrderInfo [(''Quantity'', JStr ''abc'')] ''amazon'') \<noteq> Num 1"
  by code_simp

text \<open>C8 at a flipkart row without any quantity column.\<close>

theorem C8_quantity_default_witness:
  "quantityCell [(''SKU'', JStr ''A1'')] ''flipkart'' = JNull
   \<and> oi_quantity (extractOrderInfo [(''SKU'', JStr ''A1'')] ''flipkart'') = Num 1"
proof -
  have "quantityCell [(''SKU'', JStr ''A1'')] ''flipkart'' = JNull" by code_simp
  then show ?thesis using C8_quantity_default[of "[(''SKU'', JStr ''A1'')]" "''flipkart''"] by simp
qed

subsection \<open>The mapping table\<close>

text \<open>
  Claim C3 fails on the code. \<open>loadMasterData\<close> compares the cells of a row before it
  trims them and stores them trimmed: a row whose SKU cell is \<open>A\<close> followed by a space
  and whose MSKU cell is \<open>A\<close> passes the test \<open>sku !== msku\<close> and is stored as the
  identity mapping of \<open>A\<close>.
\<close>

theorem C3_identity_mapping_stored:
  "skuToMsku (loadMasterData [[(''sku'', JStr ''A ''), (''msku'', JStr ''A'')]] initialMasterData)
     = [(''A'', ''A'')]"
  by code_simp

subsection \<open>The inventory ledger builder\<close>

lemma inventoryRow_stored:
  assumes "truthy (findColumnValue r [''msku'', ''MSKU'', ''Msku''])"
    and "trim (toString (findColumnValue r [''msku'', ''MSKU'', ''Msku''])) = k" and "k \<noteq> []"
  shows "map_get (currentInventory (snd (inventoryRow i r md))) k = Some (rowInventoryData r k)"
    and "map_get (originalInventory (snd (inventoryRow i r md))) k = Some (rowInventoryData r k)"
  using assms by (simp_all add: inventoryRow_def Let_def map_get_map_set)

lemma rowInventoryData_fields:
  "openingStock (rowInventoryData r k) = rowOpeningStock r"
  "bufferStock (rowInventoryData r k) = rowBufferStock r"
  "currentStock (rowInventoryData r k) = rowTotalStock r"
  "warehouseStock (rowInventoryData r k) = fst (warehouseScan r)"
  "status (rowInventoryData r k) = (if js_gt (rowTotalStock r) (Num 0) then ''In Stock'' else ''Out of Stock'')"
  by (simp_all add: rowInventoryData_def Let_def)

lemma js_eq_num_iff: "js_eq_num a (Num n) \<longleftrightarrow> a = Num n"
  by (cases a) auto

lemma map_set_fresh: "k \<notin> fst ` set m \<Longrightarrow> map_set m k v = m @ [(k, v)]"
  by (induction m) auto

text \<open>The scan of the warehouse columns keeps, in column order, the columns whose cell
  parses to a positive integer, and adds those integers up.\<close>

lemma warehouse_fold_exact:
  "distinct cols \<Longrightarrow> set cols \<inter> fst ` set (snd acc) = {} \<Longrightarrow>
   foldl (warehouseStep r) acc cols =
     (fst acc + sum_list (map snd (List.map_filter
        (\<lambda>col. case parseInt (js_or (findColumnValue r [col]) (JNum (Num 0))) of
                 NaN \<Rightarrow> None
               | Num stock \<Rightarrow> if stock > 0 then Some (col, stock) else None) cols)),
      snd acc @ List.map_filter
        (\<lambda>col. case parseInt (js_or (findColumnValue r [col]) (JNum (Num 0))) of
                 NaN \<Rightarrow> None
               | Num stock \<Rightarrow> if stock > 0 then Some (col, stock) else None) cols)"
proof (induction cols arbitrary: acc)
  case Nil
  then show ?case by (simp add: List.map_filter_simps)
next
  case (Cons c cols)
  let ?acc = "warehouseStep r acc c"
  have fresh: "c \<notin> fst ` set (snd acc)" using Cons.prems by auto
  have keys: "fst ` set (snd ?acc) \<subseteq> insert c (fst ` set (snd acc))"
    by (auto simp: warehouseStep_def map_set_fresh[OF fresh] split: jsnum.splits)
  have disj: "set cols \<inter> fst ` set (snd ?acc) = {}" using Cons.prems(1,2) keys by auto
  from Cons.prems(1) have d: "distinct cols" by simp
  show ?case
    using Cons.IH[OF d disj]
    by (auto simp: warehouseStep_def map_set_fresh[OF fresh] List.map_filter_simps split: jsnum.splits)
qed

lemma scan_cell:
  "(\<lambda>col. case parseInt (js_or (findColumnValue r [col]) (JNum (Num 0))) of
                 NaN \<Rightarrow> None
               | Num stock \<Rightarrow> if stock > 0 then Some (col, stock) else None)
   = (\<lambda>col. let cell = findColumnValue r [col]
                in if truthy cell
                   then (case parseInt cell of
                           NaN \<Rightarrow> None
                         | Num stock \<Rightarrow> if stock > 0 then Some (col, stock) else None)
                   else None)"
  by (rule ext) (simp add: js_or_def Let_def)

lemma warehouseScan_exact:
  "snd (warehouseScan r) =
     List.map_filter
       (\<lambda>col. let cell = findColumnValue r [col]
                in if truthy cell
                   then (case parseInt cell of
                           NaN \<Rightarrow> None
                         | Num stock \<Rightarrow> if stock > 0 then Some (col, stock) else None)
                   else None) warehouseColumns"
  "fst (warehouseScan r) = sum_list (map snd (snd (warehouseScan r)))"
  "\<forall>e \<in> set (snd (warehouseScan r)). snd e > 0"
proof -
  have d: "distinct warehouseColumns" by (simp add: warehouseColumns_def)
  have scan: "warehouseScan r =
     (sum_list (map snd (List.map_filter
        (\<lambda>col. case parseInt (js_or (findColumnValue r [col]) (JNum (Num 0))) of
                 NaN \<Rightarrow> None
               | Num stock \<Rightarrow> if stock > 0 then Some (col, stock) else None) warehouseColumns)),
      List.map_filter
        (\<lambda>col. case parseInt (js_or (findColumnValue r [col]) (JNum (Num 0))) of
                 NaN \<Rightarrow> None
               | Num stock \<Rightarrow> if stock > 0 then Some (col, stock) else None) warehouseColumns)"
    using warehouse_fold_exact[OF d, of "(0, [])" r] by (simp add: warehouseScan_def)
  show "snd (warehouseScan r) =
     List.map_filter
       (\<lambda>col. let cell = findColumnValue r [col]
                in if truthy cell
                   then (case parseInt cell of
                           NaN \<Rightarrow> None
                         | Num stock \<Rightarrow> if stock > 0 then Some (col, stock) else None)
                   else None) warehouseColumns"
    unfolding scan scan_cell by simp
  show "fst (warehouseScan r) = sum_list (map snd (snd (warehouseScan r)))"
    unfolding scan by simp
  show "\<forall>e \<in> set (snd (warehouseScan r)). snd e > 0"
    unfolding scan by (auto simp: List.map_filter_def split: jsnum.splits if_splits)
qed

text \<open>
  Claim C7, as amended. For every inventory row with an MSKU, the item stored in the
  ledger and in the snapshot has: \<open>openingStock\<close> and \<open>bufferStock\<close> equal to 0 when the
  cell is missing or falsy, and to what \<open>parseInt\<close> returns for the cell otherwise;
  \<open>warehouseBreakdown\<close> holding, in the order of the fixed location codes, exactly the
  locations whose cell of the row is present and parses to an integer above 0, each with
  that integer; \<open>warehouseStock\<close> the sum of these per-location stocks;
  \<open>currentStock\<close> equal to \<open>openingStock\<close> unless \<open>openingStock\<close> is 0 and that sum is
  positive, in which case it is the sum; and status \<open>In Stock\<close> exactly when
  \<open>currentStock > 0\<close>, \<open>Out of Stock\<close> otherwise.
\<close>

theorem C7_stock_rule:
  assumes "truthy (findColumnValue r [''msku'', ''MSKU'', ''Msku''])"
    and "trim (toString (findColumnValue r [''msku'', ''MSKU'', ''Msku''])) = k" and "k \<noteq> []"
  shows "\<exists>item.
     map_get (currentInventory (snd (inventoryRow i r md))) k = Some item
     \<and> map_get (originalInventory (snd (inventoryRow i r md))) k = Some item
     \<and> openingStock item =
         (let cell = findColumnValue r [''Opening Stock'', ''opening_stock'', ''Opening'']
          in if truthy cell then parseInt cell else Num 0)
     \<and> bufferStock item =
         (let cell = findColumnValue r [''Buffer Stock'', ''buffer_stock'', ''Buffer'']
          in if truthy cell then parseInt cell else Num 0)
     \<and> warehouseBreakdown item =
         List.map_filter
           (\<lambda>col. let cell = findColumnValue r [col]
                in if truthy cell
                   then (case parseInt cell of
                           NaN \<Rightarrow> None
                         | Num stock \<Rightarrow> if stock > 0 then Some (col, stock) else None)
                   else None)
           [''TLCQ'', ''BLR7'', ''BLR8'', ''BOM5'', ''BOM7'', ''CCU1'', ''CCX1'', ''DEL4'', ''DEL5'',
            ''DEX3'', ''PNQ2'', ''PNQ3'', ''SDED'', ''SDEE'', ''XHJ9'']
     \<and> (\<forall>e \<in> set (warehouseBreakdown item). snd e > 0)
     \<and> warehouseStock item = sum_list (map snd (warehouseBreakdown item))
     \<and> currentStock item =
         (if openingStock item = Num 0 \<and> warehouseStock item > 0
          then Num (warehouseStock item) else openingStock item)
     \<and> (status item = ''In Stock'' \<longleftrightarrow> js_gt (currentStock item) (Num 0))
     \<and> (status item = ''Out of Stock'' \<longleftrightarrow> \<not> js_gt (currentStock item) (Num 0))"
proof -
  let ?item = "rowInventoryData r k"
  have 1: "openingStock ?item =
         (let cell = findColumnValue r [''Opening Stock'', ''opening_stock'', ''Opening'']
          in if truthy cell then parseInt cell else Num 0)"
    by (simp add: rowInventoryData_fields rowOpeningStock_def js_or_def Let_def)
  have 2: "bufferStock ?item =
         (let cell = findColumnValue r [''Buffer Stock'', ''buffer_stock'', ''Buffer'']
          in if truthy cell then parseInt cell else Num 0)"
    by (simp add: rowInventoryData_fields rowBufferStock_def js_or_def Let_def)
  have 3: "currentStock ?item =
         (if openingStock ?item = Num 0 \<and> warehouseStock ?item > 0
          then Num (warehouseStock ?item) else openingStock ?item)"
    by (simp add: rowInventoryData_fields rowTotalStock_def js_eq_num_iff)
  have wb: "warehouseBreakdown ?item = snd (warehouseScan r)"
    and ws: "warehouseStock ?item = fst (warehouseScan r)"
    by (simp_all add: rowInventoryData_def Let_def)
  have 6: "warehouseStock ?item = sum_list (map snd (warehouseBreakdown ?item))"
    unfolding wb ws by (rule warehouseScan_exact(2))
  have 7: "warehouseBreakdown ?item =
         List.map_filter
           (\<lambda>col. let cell = findColumnValue r [col]
                in if truthy cell
                   then (case parseInt cell of
                           NaN \<Rightarrow> None
                         | Num stock \<Rightarrow> if stock > 0 then Some (col, stock) else None)
                   else None)
           [''TLCQ'', ''BLR7'', ''BLR8'', ''BOM5'', ''BOM7'', ''CCU1'', ''CCX1'', ''DEL4'', ''DEL5'',
            ''DEX3'', ''PNQ2'', ''PNQ3'', ''SDED'', ''SDEE'', ''XHJ9'']"
    unfolding wb warehouseScan_exact(1) warehouseColumns_def by (rule refl)
  have 8: "\<forall>e \<in> set (warehouseBreakdown ?item). snd e > 0"
    unfolding wb by (rule warehouseScan_exact(3))
  have 4: "status ?item = ''In Stock'' \<longleftrightarrow> js_gt (currentStock ?item) (Num 0)"
    by (simp add: rowInventoryData_fields)
  have 5: "status ?item = ''Out of Stock'' \<longleftrightarrow> \<not> js_gt (currentStock ?item) (Num 0)"
    by (simp add: rowInventoryData_fields)
  from inventoryRow_stored[OF assms] 1 2 3 4 5 6 7 8 show ?thesis by blast
qed

text \<open>C7 at a row with opening stock 0 and 4 + 3 units in two warehouses, next to a
  location whose cell is 0 and one whose cell is no number.\<close>

theorem C7_stock_rule_witness:
  "truthy (findColumnValue [(''MSKU'', JStr ''M1''), (''Opening Stock'', JNum (Num 0)), (''BLR7'', JNum (Num 4)),
       (''BOM5'', JNum (Num 0)), (''CCU1'', JStr ''n/a''), (''DEL4'', JStr ''3'')] [''msku'', ''MSKU'', ''Msku''])
   \<and> trim (toString (findColumnValue [(''MSKU'', JStr ''M1''), (''Opening Stock'', JNum (Num 0)), (''BLR7'', JNum (Num 4)),
       (''BOM5'', JNum (Num 0)), (''CCU1'', JStr ''n/a''), (''DEL4'', JStr ''3'')] [''msku'', ''MSKU'', ''Msku''])) = ''M1''
   \<and> (\<exists>item.
         map_get (currentInventory (snd (inventoryRow 0 [(''MSKU'', JStr ''M1''), (''Opening Stock'', JNum (Num 0)), (''BLR7'', JNum (Num 4)),
       (''BOM5'', JNum (Num 0)), (''CCU1'', JStr ''n/a''), (''DEL4'', JStr ''3'')] initialMasterData))) ''M1'' = Some item
         \<and> openingStock item = Num 0
         \<and> warehouseBreakdown item = [(''BLR7'', 4), (''DEL4'', 3)]
         \<and> warehouseStock item = 7
         \<and> currentStock item = Num 7 \<and> status item = ''In Stock'')"
proof -
  let ?r = "[(''MSKU'', JStr ''M1''), (''Opening Stock'', JNum (Num 0)), (''BLR7'', JNum (Num 4)),
       (''BOM5'', JNum (Num 0)), (''CCU1'', JStr ''n/a''), (''DEL4'', JStr ''3'')]"
  have a: "truthy (findColumnValue ?r [''msku'', ''MSKU'', ''Msku''])" by code_simp
  have b: "trim (toString (findColumnValue ?r [''msku'', ''MSKU'', ''Msku''])) = ''M1''" by code_simp
  have c: "''M1'' \<noteq> []" by simp
  have d: "(let cell = findColumnValue ?r [''Opening Stock'', ''opening_stock'', ''Opening'']
            in if truthy cell then parseInt cell else Num 0) = Num 0" by code_simp
  have e: "List.map_filter
           (\<lambda>col. let cell = findColumnValue ?r [col]
                in if truthy cell
                   then (case parseInt cell of
                           NaN \<Rightarrow> None
                         | Num stock \<Rightarrow> if stock > 0 then Some (col, stock) else None)
                   else None)
           [''TLCQ'', ''BLR7'', ''BLR8'', ''BOM5'', ''BOM7'', ''CCU1'', ''CCX1'', ''DEL4'', ''DEL5'',
            ''DEX3'', ''PNQ2'', ''PNQ3'', ''SDED'', ''SDEE'', ''XHJ9'']
         = [(''BLR7'', 4), (''DEL4'', 3)]"
    by code_simp
  from C7_stock_rule[OF a b c, of 0 initialMasterData] obtain item where
    item: "map_get (currentInventory (snd (inventoryRow 0 ?r initialMasterData))) ''M1'' = Some item"
      "openingStock item =
         (let cell = findColumnValue ?r [''Opening Stock'', ''opening_stock'', ''Opening'']
          in if truthy cell then parseInt cell else Num 0)"
      "warehouseBreakdown item =
         List.map_filter
           (\<lambda>col. let cell = findColumnValue ?r [col]
                in if truthy cell
                   then (case parseInt cell of
                           NaN \<Rightarrow> None
                         | Num stock \<Rightarrow> if stock > 0 then Some (col, stock) else None)
                   else None)
           [''TLCQ'', ''BLR7'', ''BLR8'', ''BOM5'', ''BOM7'', ''CCU1'', ''CCX1'', ''DEL4'', ''DEL5'',
            ''DEX3'', ''PNQ2'', ''PNQ3'', ''SDED'', ''SDEE'', ''XHJ9'']"
      "warehouseStock item = sum_list (map snd (warehouseBreakdown item))"
      "currentStock item =
         (if openingStock item = Num 0 \<and> warehouseStock item > 0
          then Num (warehouseStock item) else openingStock item)"
      "status item = ''In Stock'' \<longleftrightarrow> js_gt (currentStock item) (Num 0)"
    by auto
  from item(3) e have wb: "warehouseBreakdown item = [(''BLR7'', 4), (''DEL4'', 3)]" by simp
  from item(4) wb have w: "warehouseStock item = 7" by simp
  from item(2) d have o: "openingStock item = Num 0" by simp
  from item(5) w o have cur: "currentStock item = Num 7" by simp
  from item(6) cur have "status item = ''In Stock''" by simp
  with a b item(1) o wb w cur show ?thesis by blast
qed

text \<open>Claim C7 as stated fails: an opening-stock cell \<open>abc\<close> cannot be parsed as an
  integer, and the stored \<open>openingStock\<close> is NaN, not 0.\<close>

theorem C7_unparseable_counterexample:
  "parseInt (JStr ''abc'') = NaN
   \<and> map_option openingStock
        (map_get (currentInventory (snd (loadCurrentInventory
           [[(''MSKU'', JStr ''A''), (''Opening Stock'', JStr ''abc'')]] initialMasterData))) ''A'')
       = Some NaN
   \<and> NaN \<noteq> Num 0"
  by code_simp

subsection \<open>Reconciliation\<close>


lemma salesEntry_current:
  "map_get (currentInventory (fst (salesEntry acc e))) k =
     (if k = fst e
      then map_option (\<lambda>it. it\<lparr>currentStock := Math_max (Num 0) (js_sub (currentStock it) (Num (snd e)))\<rparr>)
             (map_get (currentInventory (fst acc)) k)
      else map_get (currentInventory (fst acc)) k)"
  by (auto simp: salesEntry_def Let_def map_get_map_set split: option.splits)

lemma salesEntry_keys:
  "map fst (currentInventory (fst (salesEntry acc e))) = map fst (currentInventory (fst acc))"
  by (auto simp: salesEntry_def Let_def keys_map_set map_get_def map_of_eq_None_iff
           split: option.splits)

lemma salesEntry_rest:
  "originalInventory (fst (salesEntry acc e)) = originalInventory (fst acc)"
  "skuToMsku (fst (salesEntry acc e)) = skuToMsku (fst acc)"
  "comboSkus (fst (salesEntry acc e)) = comboSkus (fst acc)"
  by (auto simp: salesEntry_def Let_def split: option.splits)

lemma sales_fold_untouched:
  "k \<notin> fst ` set m \<Longrightarrow>
   map_get (currentInventory (fst (foldl salesEntry acc m))) k = map_get (currentInventory (fst acc)) k"
  by (induction m rule: rev_induct) (auto simp: salesEntry_current)


lemma sales_fold_found:
  "distinct (map fst m) \<Longrightarrow> (k, q) \<in> set m \<Longrightarrow>
   map_get (currentInventory (fst (foldl salesEntry acc m))) k =
     map_option (\<lambda>it. it\<lparr>currentStock := Math_max (Num 0) (js_sub (currentStock it) (Num q))\<rparr>)
       (map_get (currentInventory (fst acc)) k)"
proof (induction m rule: rev_induct)
  case Nil
  then show ?case by simp
next
  case (snoc e m)
  show ?case
  proof (cases "e = (k, q)")
    case True
    with snoc.prems(1) have "k \<notin> fst ` set m" by auto
    from sales_fold_untouched[OF this] True show ?thesis
      by (simp add: salesEntry_current)
  next
    case False
    with snoc.prems have in_m: "(k, q) \<in> set m" and d: "distinct (map fst m)" by auto
    from in_m snoc.prems(1) have "k \<noteq> fst e" by (auto simp: rev_image_eqI)
    with snoc.IH[OF d in_m] show ?thesis by (simp add: salesEntry_current)
  qed
qed

lemma update_state: "snd (updateInventoryWithSales m md) = fst (foldl salesEntry (md, []) m)"
  by (simp add: updateInventoryWithSales_def Let_def)





subsection \<open>Reconciliation entries and their order\<close>

text \<open>With the comparator \<open>b.soldQuantity - a.soldQuantity\<close> the sort is the stable sort by
  the key \<open>- soldQuantity\<close>.\<close>

lemma insertBy_insort:
  "insertBy (\<lambda>a b. f b - f a) x ys = insort_key (\<lambda>u. - f u) x ys" for f :: "'a \<Rightarrow> int"
  by (induction ys) auto

lemma sortBy_sort_key:
  "sortBy (\<lambda>a b. f b - f a) xs = sort_key (\<lambda>u. - f u) xs" for f :: "'a \<Rightarrow> int"
  by (induction xs) (auto simp: sortBy_def insertBy_insort)

lemma sortBy_descending:
  "sorted_wrt (\<lambda>a b. f a \<ge> f b) (sortBy (\<lambda>a b. f b - f a) xs)" for f :: "'a \<Rightarrow> int"
proof -
  have "sorted (map (\<lambda>u. - f u) (sort_key (\<lambda>u. - f u) xs))" by (rule sorted_sort_key)
  then show ?thesis by (simp add: sortBy_sort_key sorted_map)
qed

lemma sortBy_stable:
  "filter (\<lambda>u. f u = q) (sortBy (\<lambda>a b. f b - f a) xs) = filter (\<lambda>u. f u = q) xs"
  for f :: "'a \<Rightarrow> int"
  using sort_key_stable[of "\<lambda>u. - f u" "- q" xs] by (simp add: sortBy_sort_key)

lemma sortBy_set: "set (sortBy (\<lambda>a b. f b - f a) xs) = set xs" for f :: "'a \<Rightarrow> int"
  by (simp add: sortBy_sort_key)

lemma sortBy_length: "length (sortBy (\<lambda>a b. f b - f a) xs) = length xs" for f :: "'a \<Rightarrow> int"
  by (simp add: sortBy_sort_key)

lemma salesEntry_updates:
  "\<exists>u. snd (salesEntry acc e) = snd acc @ [u] \<and> upd_msku u = fst e \<and> upd_soldQuantity u = snd e
       \<and> (map_get (currentInventory (fst acc)) (fst e) = None \<longrightarrow> u = \<lparr>upd_msku = fst e, upd_originalStock = Num 0, upd_soldQuantity = snd e,
              upd_newStock = Num 0, upd_stockReduced = Num 0, upd_panel = ''Not Found'',
              upd_status = ''Unknown'', upd_isOutOfStock = True, upd_notInInventory = True\<rparr>)
       \<and> (upd_notInInventory u \<longleftrightarrow> map_get (currentInventory (fst acc)) (fst e) = None)"
  by (auto simp: salesEntry_def Let_def split: option.splits)

lemma sales_fold_none:
  "map_get (currentInventory (fst (foldl salesEntry acc m))) k = None
     \<longleftrightarrow> map_get (currentInventory (fst acc)) k = None"
  by (induction m rule: rev_induct) (auto simp: salesEntry_current)

lemma sales_fold_entries:
  "map (\<lambda>u. (upd_msku u, upd_soldQuantity u)) (snd (foldl salesEntry acc m))
     = map (\<lambda>u. (upd_msku u, upd_soldQuantity u)) (snd acc) @ m"
proof (induction m rule: rev_induct)
  case Nil
  then show ?case by simp
next
  case (snoc e m)
  from salesEntry_updates[of "foldl salesEntry acc m" e] obtain u where
    "snd (salesEntry (foldl salesEntry acc m) e) = snd (foldl salesEntry acc m) @ [u]"
    "upd_msku u = fst e" "upd_soldQuantity u = snd e" by auto
  with snoc.IH show ?case by simp
qed

lemma sales_fold_not_found:
  "(k, q) \<in> set m \<Longrightarrow> map_get (currentInventory (fst acc)) k = None \<Longrightarrow>
   \<lparr>upd_msku = k, upd_originalStock = Num 0, upd_soldQuantity = q,
              upd_newStock = Num 0, upd_stockReduced = Num 0, upd_panel = ''Not Found'',
              upd_status = ''Unknown'', upd_isOutOfStock = True, upd_notInInventory = True\<rparr> \<in> set (snd (foldl salesEntry acc m))"
proof (induction m rule: rev_induct)
  case Nil
  then show ?case by simp
next
  case (snoc e m)
  from salesEntry_updates[of "foldl salesEntry acc m" e] obtain u where
    u: "snd (salesEntry (foldl salesEntry acc m) e) = snd (foldl salesEntry acc m) @ [u]"
      "map_get (currentInventory (fst (foldl salesEntry acc m))) (fst e) = None
         \<longrightarrow> u = \<lparr>upd_msku = fst e, upd_originalStock = Num 0, upd_soldQuantity = snd e,
              upd_newStock = Num 0, upd_stockReduced = Num 0, upd_panel = ''Not Found'',
              upd_status = ''Unknown'', upd_isOutOfStock = True, upd_notInInventory = True\<rparr>" by auto
  show ?case
  proof (cases "e = (k, q)")
    case True
    with snoc.prems(2) have "map_get (currentInventory (fst (foldl salesEntry acc m))) (fst e) = None"
      by (simp add: sales_fold_none)
    with u True show ?thesis by simp
  next
    case False
    with snoc.prems have "(k, q) \<in> set m" by auto
    from snoc.IH[OF this snoc.prems(2)] u(1) show ?thesis by simp
  qed
qed


lemma sales_fold_all_missing:
  "\<forall>k \<in> fst ` set m. map_get (currentInventory (fst acc)) k = None \<Longrightarrow>
   fst (foldl salesEntry acc m) = fst acc"
  by (induction m rule: rev_induct) (auto simp: salesEntry_def Let_def split: option.splits)

text \<open>
  Claim C9, as amended. For every MSKU of the sold-quantity map that the ledger does not
  have, \<open>updateInventoryWithSales\<close> leaves the ledger without that MSKU and emits the
  update whose stock fields \<open>originalStock\<close>, \<open>newStock\<close> and \<open>stockReduced\<close> are 0, whose
  \<open>soldQuantity\<close> is the quantity of the map, and whose \<open>notInInventory\<close> flag is true; when
  no MSKU of the map is in the ledger the whole state is unchanged. The function always
  returns, with one update per entry of the map. The returned list is in descending order
  of \<open>soldQuantity\<close>, and the updates of equal \<open>soldQuantity\<close> name their MSKUs in the order
  in which the map holds them.
\<close>

theorem C9_not_found_and_order:
  "(\<forall>k q. (k, q) \<in> set m \<and> map_get (currentInventory md) k = None \<longrightarrow>
       map_get (currentInventory (snd (updateInventoryWithSales m md))) k = None
       \<and> \<lparr>upd_msku = k, upd_originalStock = Num 0, upd_soldQuantity = q,
              upd_newStock = Num 0, upd_stockReduced = Num 0, upd_panel = ''Not Found'',
              upd_status = ''Unknown'', upd_isOutOfStock = True, upd_notInInventory = True\<rparr> \<in> set (fst (updateInventoryWithSales m md)))
   \<and> ((\<forall>k \<in> fst ` set m. map_get (currentInventory md) k = None) \<longrightarrow>
         snd (updateInventoryWithSales m md) = md)
   \<and> sorted_wrt (\<lambda>a b. upd_soldQuantity a \<ge> upd_soldQuantity b) (fst (updateInventoryWithSales m md))
   \<and> (\<forall>q. map upd_msku (filter (\<lambda>u. upd_soldQuantity u = q) (fst (updateInventoryWithSales m md)))
            = map fst (filter (\<lambda>e. snd e = q) m))
   \<and> length (fst (updateInventoryWithSales m md)) = length m"
proof -
  let ?raw = "snd (foldl salesEntry (md, []) m)"
  have res: "fst (updateInventoryWithSales m md) = sortBy (\<lambda>a b. upd_soldQuantity b - upd_soldQuantity a) ?raw"
    by (simp add: updateInventoryWithSales_def Let_def)
  have ent: "map (\<lambda>u. (upd_msku u, upd_soldQuantity u)) ?raw = m"
    using sales_fold_entries[of "(md, [])" m] by simp
  have a: "map_get (currentInventory (snd (updateInventoryWithSales m md))) k = None
       \<and> \<lparr>upd_msku = k, upd_originalStock = Num 0, upd_soldQuantity = q,
              upd_newStock = Num 0, upd_stockReduced = Num 0, upd_panel = ''Not Found'',
              upd_status = ''Unknown'', upd_isOutOfStock = True, upd_notInInventory = True\<rparr> \<in> set (fst (updateInventoryWithSales m md))"
    if "(k, q) \<in> set m" "map_get (currentInventory md) k = None" for k q
    using that sales_fold_not_found[of k q m "(md, [])"] sales_fold_none[of "(md, [])" m k]
    by (simp add: res sortBy_set update_state)
  have b: "snd (updateInventoryWithSales m md) = md"
    if "\<forall>k \<in> fst ` set m. map_get (currentInventory md) k = None"
    using sales_fold_all_missing[of m "(md, [])"] that by (simp add: update_state)
  have c: "sorted_wrt (\<lambda>a b. upd_soldQuantity a \<ge> upd_soldQuantity b) (fst (updateInventoryWithSales m md))"
    unfolding res by (rule sortBy_descending)
  have d: "map upd_msku (filter (\<lambda>u. upd_soldQuantity u = q) (fst (updateInventoryWithSales m md)))
            = map fst (filter (\<lambda>e. snd e = q) m)" for q
  proof -
    have "map upd_msku (filter (\<lambda>u. upd_soldQuantity u = q) ?raw)
            = map fst (filter (\<lambda>e. snd e = q) (map (\<lambda>u. (upd_msku u, upd_soldQuantity u)) ?raw))"
      by (simp add: filter_map comp_def)
    then show ?thesis by (simp add: res sortBy_stable ent)
  qed
  have e: "length (fst (updateInventoryWithSales m md)) = length m"
    using arg_cong[OF ent, of length] by (simp add: res sortBy_length)
  from a b c d e show ?thesis by blast
qed

text \<open>Claim C9 as stated fails in one field: the update emitted for an MSKU that is not in
  the ledger carries the sold quantity, here 3, so not all of its numeric fields are
  zero.\<close>

theorem C9_sold_quantity_counterexample:
  "map upd_notInInventory (fst (updateInventoryWithSales [(''UNKNOWN'', 3)] initialMasterData)) = [True]
   \<and> map upd_soldQuantity (fst (updateInventoryWithSales [(''UNKNOWN'', 3)] initialMasterData)) = [3]
   \<and> (3 :: int) \<noteq> 0"
  by code_simp


text \<open>C9 at a ledger holding only \<open>A\<close> and the map A:1, UNKNOWN:3, B:1.\<close>

theorem C9_not_found_and_order_witness:
  "(''UNKNOWN'', 3) \<in> set [(''A'', 1), (''UNKNOWN'', 3), (''B'', 1 :: int)]
   \<and> map_get (currentInventory (snd (loadCurrentInventory
          [[(''MSKU'', JStr ''A''), (''Opening Stock'', JNum (Num 4))]] initialMasterData))) ''UNKNOWN'' = None
   \<and> \<lparr>upd_msku = ''UNKNOWN'', upd_originalStock = Num 0, upd_soldQuantity = 3,
        upd_newStock = Num 0, upd_stockReduced = Num 0, upd_panel = ''Not Found'',
        upd_status = ''Unknown'', upd_isOutOfStock = True, upd_notInInventory = True\<rparr>
       \<in> set (fst (updateInventoryWithSales [(''A'', 1), (''UNKNOWN'', 3), (''B'', 1)]
                 (snd (loadCurrentInventory
                    [[(''MSKU'', JStr ''A''), (''Opening Stock'', JNum (Num 4))]] initialMasterData))))
   \<and> map upd_msku (fst (updateInventoryWithSales [(''A'', 1), (''UNKNOWN'', 3), (''B'', 1)]
                 (snd (loadCurrentInventory
                    [[(''MSKU'', JStr ''A''), (''Opening Stock'', JNum (Num 4))]] initialMasterData))))
       = [''UNKNOWN'', ''A'', ''B'']"
proof -
  let ?md = "snd (loadCurrentInventory
                    [[(''MSKU'', JStr ''A''), (''Opening Stock'', JNum (Num 4))]] initialMasterData)"
  let ?m = "[(''A'', 1), (''UNKNOWN'', 3), (''B'', 1 :: int)]"
  have a: "(''UNKNOWN'', 3) \<in> set ?m" by simp
  have b: "map_get (currentInventory ?md) ''UNKNOWN'' = None" by code_simp
  have c: "map upd_msku (fst (updateInventoryWithSales ?m ?md)) = [''UNKNOWN'', ''A'', ''B'']"
    by code_simp
  from C9_not_found_and_order[of ?m ?md] a b
  have "\<lparr>upd_msku = ''UNKNOWN'', upd_originalStock = Num 0, upd_soldQuantity = 3,
        upd_newStock = Num 0, upd_stockReduced = Num 0, upd_panel = ''Not Found'',
        upd_status = ''Unknown'', upd_isOutOfStock = True, upd_notInInventory = True\<rparr>
       \<in> set (fst (updateInventoryWithSales ?m ?md))" by blast
  with a b c show ?thesis by blast
qed

subsection \<open>Reset\<close>

text \<open>After a load the working ledger and the snapshot hold the same keys in the same
  order; reconciliation and reset keep it so, and neither changes the snapshot. On such a
  state the reset makes the working ledger equal to the snapshot.\<close>

lemma map_set_distinct: "distinct (map fst m) \<Longrightarrow> distinct (map fst (map_set m k v))"
  by (simp add: keys_map_set)

lemma map_set_append_notin: "k \<notin> fst ` set p \<Longrightarrow> map_set (p @ m) k v = p @ map_set m k v"
  by (induction p) auto

lemma reset_fold_aligned:
  "distinct (map fst orig) \<Longrightarrow> map fst cur = map fst orig \<Longrightarrow>
   fst ` set p \<inter> fst ` set orig = {} \<Longrightarrow>
   foldl (\<lambda>c e. map_set c (fst e) (snd e)) (p @ cur) orig = p @ orig"
proof (induction orig arbitrary: cur p)
  case Nil
  then show ?case by simp
next
  case (Cons e orig)
  from Cons.prems(2) obtain w cur' where cur: "cur = (fst e, w) # cur'" "map fst cur' = map fst orig"
    by (cases cur) auto
  have notin: "fst e \<notin> fst ` set p" using Cons.prems(3) by auto
  have step: "map_set (p @ cur) (fst e) (snd e) = (p @ [e]) @ cur'"
    by (simp add: map_set_append_notin[OF notin] cur)
  have disj: "fst ` set (p @ [e]) \<inter> fst ` set orig = {}"
    using Cons.prems(1,3) by auto
  from Cons.prems(1) have "distinct (map fst orig)" by simp
  from Cons.IH[OF this cur(2) disj] step show ?case by simp
qed

lemma resetInventory_aligned:
  assumes "distinct (map fst (originalInventory md))"
    and "map fst (currentInventory md) = map fst (originalInventory md)"
  shows "currentInventory (resetInventory md) = originalInventory md"
  using reset_fold_aligned[OF assms, of "[]"] by (simp add: resetInventory_def)

lemma resetInventory_rest:
  "originalInventory (resetInventory md) = originalInventory md"
  "skuToMsku (resetInventory md) = skuToMsku md"
  "comboSkus (resetInventory md) = comboSkus md"
  by (simp_all add: resetInventory_def)

lemma sales_fold_keys:
  "map fst (currentInventory (fst (foldl salesEntry acc m))) = map fst (currentInventory (fst acc))"
  by (induction m rule: rev_induct) (simp_all add: salesEntry_keys)

lemma sales_fold_rest:
  "originalInventory (fst (foldl salesEntry acc m)) = originalInventory (fst acc)"
  "skuToMsku (fst (foldl salesEntry acc m)) = skuToMsku (fst acc)"
  "comboSkus (fst (foldl salesEntry acc m)) = comboSkus (fst acc)"
  by (induction m rule: rev_induct) (simp_all add: salesEntry_rest)

lemma applyOp_original: "originalInventory (applyOp md op) = originalInventory md"
  by (cases op) (simp_all add: update_state sales_fold_rest resetInventory_rest)

lemma applyOp_keys:
  assumes "distinct (map fst (originalInventory md))"
    and "map fst (currentInventory md) = map fst (originalInventory md)"
  shows "map fst (currentInventory (applyOp md op)) = map fst (originalInventory md)"
proof (cases op)
  case (Reconcile m)
  then show ?thesis using assms(2) by (simp add: update_state sales_fold_keys)
next
  case Reset
  then show ?thesis using resetInventory_aligned[OF assms] by simp
qed

lemma applyOps_inv:
  assumes "distinct (map fst (originalInventory md))"
    and "map fst (currentInventory md) = map fst (originalInventory md)"
  shows "originalInventory (foldl applyOp md ops) = originalInventory md
         \<and> map fst (currentInventory (foldl applyOp md ops)) = map fst (originalInventory md)"
proof (induction ops rule: rev_induct)
  case Nil
  then show ?case using assms by simp
next
  case (snoc op ops)
  let ?md = "foldl applyOp md ops"
  from snoc.IH assms(1) have d: "distinct (map fst (originalInventory ?md))"
    and k: "map fst (currentInventory ?md) = map fst (originalInventory ?md)" by simp_all
  from applyOp_keys[OF d k, of op] applyOp_original[of ?md op] snoc.IH show ?case by simp
qed

lemma inventoryRow_synced:
  assumes "currentInventory md = originalInventory md"
    and "distinct (map fst (originalInventory md))"
  shows "currentInventory (snd (inventoryRow i r md)) = originalInventory (snd (inventoryRow i r md))
         \<and> distinct (map fst (originalInventory (snd (inventoryRow i r md))))"
  using assms by (simp add: inventoryRow_def Let_def map_set_distinct)

lemma inventoryRows_synced:
  "currentInventory md = originalInventory md \<Longrightarrow> distinct (map fst (originalInventory md)) \<Longrightarrow>
   currentInventory (snd (inventoryRows i rs md)) = originalInventory (snd (inventoryRows i rs md))
   \<and> distinct (map fst (originalInventory (snd (inventoryRows i rs md))))"
proof (induction rs arbitrary: i md)
  case Nil
  then show ?case by simp
next
  case (Cons r rs)
  obtain e md' where step: "inventoryRow i r md = (e, md')" by (cases "inventoryRow i r md")
  from inventoryRow_synced[OF Cons.prems, of i r] step
  have s: "currentInventory md' = originalInventory md'" "distinct (map fst (originalInventory md'))"
    by simp_all
  show ?case
  proof (cases e)
    case None
    with step Cons.IH[OF s, of "Suc i"] show ?thesis by simp
  next
    case (Some err)
    with step s show ?thesis by simp
  qed
qed

text \<open>A second reset finds every snapshot entry already in place.\<close>

lemma reset_fold_untouched:
  "k \<notin> fst ` set orig \<Longrightarrow>
   map_of (foldl (\<lambda>c e. map_set c (fst e) (snd e)) cur orig) k = map_of cur k"
  by (induction orig arbitrary: cur) (auto simp: map_of_map_set)

lemma reset_fold_lookup:
  "distinct (map fst orig) \<Longrightarrow> (k, v) \<in> set orig \<Longrightarrow>
   map_of (foldl (\<lambda>c e. map_set c (fst e) (snd e)) cur orig) k = Some v"
proof (induction orig arbitrary: cur)
  case Nil
  then show ?case by simp
next
  case (Cons e orig)
  show ?case
  proof (cases "e = (k, v)")
    case True
    with Cons.prems(1) have "k \<notin> fst ` set orig" by auto
    from reset_fold_untouched[OF this] True show ?thesis by (simp add: map_of_map_set)
  next
    case False
    with Cons.prems have "(k, v) \<in> set orig" "distinct (map fst orig)" by auto
    from Cons.IH[OF this(2,1)] show ?thesis by simp
  qed
qed

lemma reset_fold_fixed:
  "\<forall>e \<in> set orig. map_of cur (fst e) = Some (snd e) \<Longrightarrow>
   foldl (\<lambda>c e. map_set c (fst e) (snd e)) cur orig = cur"
  by (induction orig) (auto simp: map_set_same)

lemma resetInventory_idempotent:
  assumes "distinct (map fst (originalInventory md))"
  shows "resetInventory (resetInventory md) = resetInventory md"
proof -
  let ?cur = "foldl (\<lambda>c e. map_set c (fst e) (snd e)) (currentInventory md) (originalInventory md)"
  have "\<forall>e \<in> set (originalInventory md). map_of ?cur (fst e) = Some (snd e)"
    using reset_fold_lookup[OF assms] by auto
  from reset_fold_fixed[OF this] show ?thesis by (simp add: resetInventory_def)
qed

text \<open>
  Claim C1. Take a state whose working ledger equals its snapshot (the empty state the
  server starts in is one), load an inventory file into it, and run any sequence of
  reconciliation passes and resets. A reset then makes the working ledger equal to the
  ledger as it was right after the load, so every item's \<open>currentStock\<close> is its load-time
  value; and a further reset changes nothing.
\<close>

theorem C1_reset_round_trip:
  assumes "currentInventory md0 = originalInventory md0"
    and "distinct (map fst (originalInventory md0))"
  shows "currentInventory (resetInventory (foldl applyOp (snd (loadCurrentInventory data md0)) ops))
           = currentInventory (snd (loadCurrentInventory data md0))
         \<and> (\<forall>k. map_option currentStock
                 (map_get (currentInventory
                    (resetInventory (foldl applyOp (snd (loadCurrentInventory data md0)) ops))) k)
               = map_option currentStock
                   (map_get (currentInventory (snd (loadCurrentInventory data md0))) k))
         \<and> resetInventory (resetInventory (foldl applyOp (snd (loadCurrentInventory data md0)) ops))
           = resetInventory (foldl applyOp (snd (loadCurrentInventory data md0)) ops)"
proof -
  let ?md1 = "snd (loadCurrentInventory data md0)"
  let ?md2 = "foldl applyOp ?md1 ops"
  from inventoryRows_synced[OF assms, of 0 data]
  have sync: "currentInventory ?md1 = originalInventory ?md1"
    and d1: "distinct (map fst (originalInventory ?md1))"
    by (simp_all add: loadCurrentInventory_def)
  from sync have k1: "map fst (currentInventory ?md1) = map fst (originalInventory ?md1)" by simp
  from applyOps_inv[OF d1 k1, of ops]
  have o2: "originalInventory ?md2 = originalInventory ?md1"
    and k2: "map fst (currentInventory ?md2) = map fst (originalInventory ?md1)" by simp_all
  from d1 o2 have d2: "distinct (map fst (originalInventory ?md2))" by simp
  from k2 o2 have k2': "map fst (currentInventory ?md2) = map fst (originalInventory ?md2)" by simp
  have r: "currentInventory (resetInventory ?md2) = originalInventory ?md2"
    by (rule resetInventory_aligned[OF d2 k2'])
  have a: "currentInventory (resetInventory ?md2) = currentInventory ?md1"
    using r o2 sync by simp
  have b: "resetInventory (resetInventory ?md2) = resetInventory ?md2"
    by (rule resetInventory_idempotent[OF d2])
  from a b show ?thesis by simp
qed


text \<open>C1 from the initial state with two items, 10 of \<open>M1\<close> and 5 of \<open>M2\<close>: after the passes
  the stocks are 9 and 0, after the reset 10 and 5 again.\<close>

theorem C1_reset_round_trip_witness:
  "currentInventory initialMasterData = originalInventory initialMasterData
   \<and> distinct (map fst (originalInventory initialMasterData))
   \<and> map (\<lambda>e. (fst e, currentStock (snd e)))
        (currentInventory (foldl applyOp
           (snd (loadCurrentInventory
              [[(''MSKU'', JStr ''M1''), (''Opening Stock'', JNum (Num 10))],
               [(''MSKU'', JStr ''M2''), (''Opening Stock'', JNum (Num 5))]] initialMasterData))
           [Reconcile [(''M1'', 3)], Reset, Reconcile [(''M2'', 9), (''M1'', 1)]]))
       = [(''M1'', Num 9), (''M2'', Num 0)]
   \<and> map (\<lambda>e. (fst e, currentStock (snd e)))
        (currentInventory (resetInventory (foldl applyOp
           (snd (loadCurrentInventory
              [[(''MSKU'', JStr ''M1''), (''Opening Stock'', JNum (Num 10))],
               [(''MSKU'', JStr ''M2''), (''Opening Stock'', JNum (Num 5))]] initialMasterData))
           [Reconcile [(''M1'', 3)], Reset, Reconcile [(''M2'', 9), (''M1'', 1)]])))
       = [(''M1'', Num 10), (''M2'', Num 5)]"
proof -
  let ?data = "[[(''MSKU'', JStr ''M1''), (''Opening Stock'', JNum (Num 10))],
               [(''MSKU'', JStr ''M2''), (''Opening Stock'', JNum (Num 5))]]"
  let ?ops = "[Reconcile [(''M1'', 3)], Reset, Reconcile [(''M2'', 9), (''M1'', 1)]]"
  have a: "currentInventory initialMasterData = originalInventory initialMasterData"
    and b: "distinct (map fst (originalInventory initialMasterData))"
    by (simp_all add: initialMasterData_def)
  have c: "map (\<lambda>e. (fst e, currentStock (snd e)))
        (currentInventory (foldl applyOp (snd (loadCurrentInventory ?data initialMasterData)) ?ops))
       = [(''M1'', Num 9), (''M2'', Num 0)]"
    by code_simp
  have d: "map (\<lambda>e. (fst e, currentStock (snd e)))
        (currentInventory (snd (loadCurrentInventory ?data initialMasterData)))
       = [(''M1'', Num 10), (''M2'', Num 5)]"
    by code_simp
  from C1_reset_round_trip[OF a b, of ?data ?ops]
  have "currentInventory (resetInventory (foldl applyOp (snd (loadCurrentInventory ?data initialMasterData)) ?ops))
          = currentInventory (snd (loadCurrentInventory ?data initialMasterData))"
    by blast
  with a b c d show ?thesis by simp
qed

subsection \<open>Combo expansion and a batch\<close>

lemma expandComboSku_cases:
  "(\<forall>components. map_get (comboSkus md) (mapSkuToMsku md sku mk) = Some components
        \<longrightarrow> expandComboSku md sku mk = components)
   \<and> (\<forall>raw components.
         map_get (comboSkus md) (mapSkuToMsku md sku mk) = None \<and> sku = JStr raw
         \<and> map_get (comboSkus md) raw = Some components
        \<longrightarrow> expandComboSku md sku mk = components)
   \<and> (map_get (comboSkus md) (mapSkuToMsku md sku mk) = None
        \<and> (\<forall>raw. sku = JStr raw \<longrightarrow> map_get (comboSkus md) raw = None)
        \<longrightarrow> expandComboSku md sku mk = [\<lparr>cmp_msku = mapSkuToMsku md sku mk, cmp_quantity = 1\<rparr>])"
  by (cases sku) (auto simp: expandComboSku_def comboByRaw_def Let_def)

text \<open>The scenario of one combo order, run through the loaders, the batch processor and
  the reconciler.\<close>

lemma combo_scenario:
  "(let st = snd (loadCurrentInventory
                [[(''MSKU'', JStr ''M1''), (''Opening Stock'', JNum (Num 10))],
                 [(''MSKU'', JStr ''M2''), (''Opening Stock'', JNum (Num 5))]]
                (loadComboData [[(''Combo'', JStr ''C1''), (''SKU1'', JStr ''M1''), (''SKU2'', JStr ''M2'')]]
                  (loadMasterData [[(''sku'', JStr ''A1''), (''msku'', JStr ''M1'')]] initialMasterData)));
        result = processOrderData st
                   [[(''sku'', JStr ''C1''), (''quantity'', JNum (Num 2)), (''status'', JStr ''Delivered'')]]
                   ''amazon'';
        reconciled = updateInventoryWithSales (msquQuantityMap result) st
    in skuToMsku st = [(''A1'', ''M1'')]
       \<and> comboSkus st = [(''C1'', [\<lparr>cmp_msku = ''M1'', cmp_quantity = 1\<rparr>,
                                  \<lparr>cmp_msku = ''M2'', cmp_quantity = 1\<rparr>])]
       \<and> map (\<lambda>e. (fst e, currentStock (snd e))) (currentInventory st) = [(''M1'', Num 10), (''M2'', Num 5)]
       \<and> processedOrders result =
           [\<lparr>po_marketplace = ''amazon'', po_originalSku = JStr ''C1'', po_mappedMsku = ''M1'',
             po_quantity = 2, po_status = JStr ''Delivered'', po_orderDate = JNull,
             po_customerLocation = JNull, po_productName = JNull, po_isComboComponent = True\<rparr>,
            \<lparr>po_marketplace = ''amazon'', po_originalSku = JStr ''C1'', po_mappedMsku = ''M2'',
             po_quantity = 2, po_status = JStr ''Delivered'', po_orderDate = JNull,
             po_customerLocation = JNull, po_productName = JNull, po_isComboComponent = True\<rparr>]
       \<and> msquQuantityMap result = [(''M1'', 2), (''M2'', 2)]
       \<and> unmappedSkus result = []
       \<and> map (\<lambda>e. (fst e, currentStock (snd e))) (currentInventory (snd reconciled))
           = [(''M1'', Num 8), (''M2'', Num 3)]
       \<and> map (\<lambda>u. (upd_msku u, upd_notInInventory u)) (fst reconciled)
           = [(''M1'', False), (''M2'', False)])"
  by code_simp

text \<open>
  Claim C6. \<open>expandComboSku\<close> looks the combo table up by the normalised MSKU first and
  returns the components found; failing that it looks the table up by the raw SKU and
  returns those components; failing both it returns the single component of the
  normalised MSKU with quantity 1. With the mapping A1 to M1, the combo C1 of one M1 and
  one M2, and a ledger of 10 M1 and 5 M2, the amazon order row of 2 units of C1 with status
  Delivered yields exactly two processed lines (M1 and M2, 2 units each), the quantity map
  M1:2, M2:2, and after reconciliation the stocks 8 and 3, with no update flagged as not
  found.
\<close>

theorem C6_combo_expansion:
  "((\<forall>components. map_get (comboSkus md) (mapSkuToMsku md sku mk) = Some components
        \<longrightarrow> expandComboSku md sku mk = components)
   \<and> (\<forall>raw components.
         map_get (comboSkus md) (mapSkuToMsku md sku mk) = None \<and> sku = JStr raw
         \<and> map_get (comboSkus md) raw = Some components
        \<longrightarrow> expandComboSku md sku mk = components)
   \<and> (map_get (comboSkus md) (mapSkuToMsku md sku mk) = None
        \<and> (\<forall>raw. sku = JStr raw \<longrightarrow> map_get (comboSkus md) raw = None)
        \<longrightarrow> expandComboSku md sku mk = [\<lparr>cmp_msku = mapSkuToMsku md sku mk, cmp_quantity = 1\<rparr>]))
   \<and> (let st = snd (loadCurrentInventory
                [[(''MSKU'', JStr ''M1''), (''Opening Stock'', JNum (Num 10))],
                 [(''MSKU'', JStr ''M2''), (''Opening Stock'', JNum (Num 5))]]
                (loadComboData [[(''Combo'', JStr ''C1''), (''SKU1'', JStr ''M1''), (''SKU2'', JStr ''M2'')]]
                  (loadMasterData [[(''sku'', JStr ''A1''), (''msku'', JStr ''M1'')]] initialMasterData)));
        result = processOrderData st
                   [[(''sku'', JStr ''C1''), (''quantity'', JNum (Num 2)), (''status'', JStr ''Delivered'')]]
                   ''amazon'';
        reconciled = updateInventoryWithSales (msquQuantityMap result) st
    in skuToMsku st = [(''A1'', ''M1'')]
       \<and> comboSkus st = [(''C1'', [\<lparr>cmp_msku = ''M1'', cmp_quantity = 1\<rparr>,
                                  \<lparr>cmp_msku = ''M2'', cmp_quantity = 1\<rparr>])]
       \<and> map (\<lambda>e. (fst e, currentStock (snd e))) (currentInventory st) = [(''M1'', Num 10), (''M2'', Num 5)]
       \<and> processedOrders result =
           [\<lparr>po_marketplace = ''amazon'', po_originalSku = JStr ''C1'', po_mappedMsku = ''M1'',
             po_quantity = 2, po_status = JStr ''Delivered'', po_orderDate = JNull,
             po_customerLocation = JNull, po_productName = JNull, po_isComboComponent = True\<rparr>,
            \<lparr>po_marketplace = ''amazon'', po_originalSku = JStr ''C1'', po_mappedMsku = ''M2'',
             po_quantity = 2, po_status = JStr ''Delivered'', po_orderDate = JNull,
             po_customerLocation = JNull, po_productName = JNull, po_isComboComponent = True\<rparr>]
       \<and> msquQuantityMap result = [(''M1'', 2), (''M2'', 2)]
       \<and> unmappedSkus result = []
       \<and> map (\<lambda>e. (fst e, currentStock (snd e))) (currentInventory (snd reconciled))
           = [(''M1'', Num 8), (''M2'', Num 3)]
       \<and> map (\<lambda>u. (upd_msku u, upd_notInInventory u)) (fst reconciled)
           = [(''M1'', False), (''M2'', False)])"
  using expandComboSku_cases[of md sku mk] combo_scenario by (rule conjI)

text \<open>C6 at a combo that is keyed by the raw SKU \<open>A1\<close> while \<open>A1\<close> normalises to \<open>M1\<close>, and at
  a SKU \<open>Z\<close> that no table knows.\<close>

theorem C6_combo_expansion_witness:
  "map_get (comboSkus (loadComboData [[(''Combo'', JStr ''A1''), (''SKU1'', JStr ''X''), (''SKU2'', JStr ''Y'')]]
                (loadMasterData [[(''sku'', JStr ''A1''), (''msku'', JStr ''M1'')]] initialMasterData)))
      (mapSkuToMsku (loadComboData [[(''Combo'', JStr ''A1''), (''SKU1'', JStr ''X''), (''SKU2'', JStr ''Y'')]]
                (loadMasterData [[(''sku'', JStr ''A1''), (''msku'', JStr ''M1'')]] initialMasterData))
         (JStr ''A1'') ''amazon'') = None
   \<and> map_get (comboSkus (loadComboData [[(''Combo'', JStr ''A1''), (''SKU1'', JStr ''X''), (''SKU2'', JStr ''Y'')]]
                (loadMasterData [[(''sku'', JStr ''A1''), (''msku'', JStr ''M1'')]] initialMasterData))) ''A1''
       = Some [\<lparr>cmp_msku = ''X'', cmp_quantity = 1\<rparr>, \<lparr>cmp_msku = ''Y'', cmp_quantity = 1\<rparr>]
   \<and> expandComboSku (loadComboData [[(''Combo'', JStr ''A1''), (''SKU1'', JStr ''X''), (''SKU2'', JStr ''Y'')]]
                (loadMasterData [[(''sku'', JStr ''A1''), (''msku'', JStr ''M1'')]] initialMasterData))
         (JStr ''A1'') ''amazon''
       = [\<lparr>cmp_msku = ''X'', cmp_quantity = 1\<rparr>, \<lparr>cmp_msku = ''Y'', cmp_quantity = 1\<rparr>]
   \<and> map_get (comboSkus initialMasterData) (mapSkuToMsku initialMasterData (JStr ''Z'') ''amazon'') = None
   \<and> expandComboSku initialMasterData (JStr ''Z'') ''amazon'' = [\<lparr>cmp_msku = ''Z'', cmp_quantity = 1\<rparr>]"
proof -
  let ?md = "loadComboData [[(''Combo'', JStr ''A1''), (''SKU1'', JStr ''X''), (''SKU2'', JStr ''Y'')]]
                (loadMasterData [[(''sku'', JStr ''A1''), (''msku'', JStr ''M1'')]] initialMasterData)"
  let ?xy = "[\<lparr>cmp_msku = ''X'', cmp_quantity = 1\<rparr>, \<lparr>cmp_msku = ''Y'', cmp_quantity = 1\<rparr>]"
  have a: "map_get (comboSkus ?md) (mapSkuToMsku ?md (JStr ''A1'') ''amazon'') = None" by code_simp
  have b: "map_get (comboSkus ?md) ''A1'' = Some ?xy" by code_simp
  from C6_combo_expansion[of ?md "JStr ''A1''" "''amazon''"] a b
  have c: "expandComboSku ?md (JStr ''A1'') ''amazon'' = ?xy" by blast
  have d: "map_get (comboSkus initialMasterData) (mapSkuToMsku initialMasterData (JStr ''Z'') ''amazon'') = None"
    by code_simp
  have e: "\<forall>raw. JStr ''Z'' = JStr raw \<longrightarrow> map_get (comboSkus initialMasterData) raw = None"
    by (simp add: initialMasterData_def map_get_def)
  have z: "mapSkuToMsku initialMasterData (JStr ''Z'') ''amazon'' = ''Z''" by code_simp
  from C6_combo_expansion[of initialMasterData "JStr ''Z''" "''amazon''"] d e
  have "expandComboSku initialMasterData (JStr ''Z'') ''amazon''
          = [\<lparr>cmp_msku = mapSkuToMsku initialMasterData (JStr ''Z'') ''amazon'', cmp_quantity = 1\<rparr>]"
    by blast
  with z have f: "expandComboSku initialMasterData (JStr ''Z'') ''amazon'' = [\<lparr>cmp_msku = ''Z'', cmp_quantity = 1\<rparr>]"
    by simp
  from a b c d f show ?thesis by blast
qed

subsection \<open>The route \<open>POST /process-orders\<close>\<close>

text \<open>The upload middleware lets a request through exactly when every file part is a
  \<open>masterFile\<close> or an \<open>orderFiles\<close> part, with at most one of the former and at most ten of
  the latter; the handler then sees the first master file and the order files in order.\<close>

lemma uploadFields_refused:
  "\<exists>f. length (filter (\<lambda>p. fst p = f) parts) > (case map_get left f of None \<Rightarrow> 0 | Some n \<Rightarrow> n) \<Longrightarrow>
   uploadFields left files0 parts = Inl MulterError"
proof (induction parts arbitrary: left files0)
  case Nil
  then show ?case by simp
next
  case (Cons p parts)
  then obtain f where f: "length (filter (\<lambda>q. fst q = f) (p # parts))
      > (case map_get left f of None \<Rightarrow> 0 | Some n \<Rightarrow> n)" by blast
  show ?case
  proof (cases "map_get left (fst p)")
    case None
    then show ?thesis by simp
  next
    case (Some n)
    show ?thesis
    proof (cases "n = 0")
      case True
      with Some show ?thesis by simp
    next
      case False
      let ?left = "map_set left (fst p) (n - 1)"
      have "length (filter (\<lambda>q. fst q = f) parts) > (case map_get ?left f of None \<Rightarrow> 0 | Some n \<Rightarrow> n)"
        using f Some False by (auto simp: map_get_map_set split: if_splits)
      then have "\<exists>f. length (filter (\<lambda>q. fst q = f) parts)
                    > (case map_get ?left f of None \<Rightarrow> 0 | Some n \<Rightarrow> n)" by blast
      from Cons.IH[OF this] Some False show ?thesis by simp
    qed
  qed
qed

lemma uploadFields_accepted:
  "\<forall>f. length (filter (\<lambda>p. fst p = f) parts) \<le> (case map_get left f of None \<Rightarrow> 0 | Some n \<Rightarrow> n) \<Longrightarrow>
   \<exists>files. uploadFields left files0 parts = Inr files
     \<and> (\<forall>f. map_get files f =
           (if filter (\<lambda>p. fst p = f) parts = [] then map_get files0 f
            else Some ((case map_get files0 f of None \<Rightarrow> [] | Some fs \<Rightarrow> fs)
                         @ map snd (filter (\<lambda>p. fst p = f) parts))))"
proof (induction parts arbitrary: left files0)
  case Nil
  then show ?case by simp
next
  case (Cons p parts)
  from Cons.prems have "length (filter (\<lambda>q. fst q = fst p) (p # parts))
      \<le> (case map_get left (fst p) of None \<Rightarrow> 0 | Some n \<Rightarrow> n)" by blast
  then obtain n where n: "map_get left (fst p) = Some n" "n \<noteq> 0"
    by (cases "map_get left (fst p)") auto
  let ?left = "map_set left (fst p) (n - 1)"
  let ?files = "map_set files0 (fst p)
                    ((case map_get files0 (fst p) of None \<Rightarrow> [] | Some fs \<Rightarrow> fs) @ [snd p])"
  have "\<forall>f. length (filter (\<lambda>q. fst q = f) parts) \<le> (case map_get ?left f of None \<Rightarrow> 0 | Some n \<Rightarrow> n)"
  proof
    fix f
    from Cons.prems have "length (filter (\<lambda>q. fst q = f) (p # parts))
      \<le> (case map_get left f of None \<Rightarrow> 0 | Some n \<Rightarrow> n)" by blast
    then show "length (filter (\<lambda>q. fst q = f) parts) \<le> (case map_get ?left f of None \<Rightarrow> 0 | Some n \<Rightarrow> n)"
      using n by (auto simp: map_get_map_set split: if_splits)
  qed
  from Cons.IH[OF this, of ?files] obtain files where
    files: "uploadFields ?left ?files parts = Inr files"
      "\<forall>f. map_get files f =
           (if filter (\<lambda>p. fst p = f) parts = [] then map_get ?files f
            else Some ((case map_get ?files f of None \<Rightarrow> [] | Some fs \<Rightarrow> fs)
                         @ map snd (filter (\<lambda>p. fst p = f) parts)))" by blast
  have run: "uploadFields left files0 (p # parts) = Inr files" using n files(1) by simp
  have "map_get files f =
           (if filter (\<lambda>q. fst q = f) (p # parts) = [] then map_get files0 f
            else Some ((case map_get files0 f of None \<Rightarrow> [] | Some fs \<Rightarrow> fs)
                         @ map snd (filter (\<lambda>q. fst q = f) (p # parts))))" for f
    using files(2)[rule_format, of f] by (auto simp: map_get_map_set split: option.splits)
  with run show ?case by blast
qed

lemma route_limits:
  "withinLimits parts \<longleftrightarrow>
     (\<forall>f. length (filter (\<lambda>p. fst p = f) parts)
            \<le> (case map_get routeFields f of None \<Rightarrow> 0 | Some n \<Rightarrow> n))"
proof
  assume w: "withinLimits parts"
  show "\<forall>f. length (filter (\<lambda>p. fst p = f) parts)
            \<le> (case map_get routeFields f of None \<Rightarrow> 0 | Some n \<Rightarrow> n)"
  proof
    fix f
    show "length (filter (\<lambda>p. fst p = f) parts)
            \<le> (case map_get routeFields f of None \<Rightarrow> 0 | Some n \<Rightarrow> n)"
    proof (cases "f = ''masterFile'' \<or> f = ''orderFiles''")
      case True
      with w show ?thesis by (auto simp: withinLimits_def routeFields_def map_get_def)
    next
      case False
      with w have "filter (\<lambda>p. fst p = f) parts = []"
        by (auto simp: withinLimits_def list_all_iff filter_empty_conv)
      then show ?thesis by simp
    qed
  qed
next
  assume a: "\<forall>f. length (filter (\<lambda>p. fst p = f) parts)
            \<le> (case map_get routeFields f of None \<Rightarrow> 0 | Some n \<Rightarrow> n)"
  have "fst p = ''masterFile'' \<or> fst p = ''orderFiles''" if "p \<in> set parts" for p
  proof (rule ccontr)
    assume n: "\<not> (fst p = ''masterFile'' \<or> fst p = ''orderFiles'')"
    then have "map_get routeFields (fst p) = None" by (simp add: routeFields_def map_get_def)
    with a[rule_format, of "fst p"] have "filter (\<lambda>q. fst q = fst p) parts = []" by simp
    with that show False by (auto simp: filter_empty_conv)
  qed
  moreover from a[rule_format, of "''masterFile''"]
  have "length (filter (\<lambda>p. fst p = ''masterFile'') parts) \<le> 1"
    by (simp add: routeFields_def map_get_def)
  moreover from a[rule_format, of "''orderFiles''"]
  have "length (filter (\<lambda>p. fst p = ''orderFiles'') parts) \<le> 10"
    by (simp add: routeFields_def map_get_def)
  ultimately show "withinLimits parts" by (simp add: withinLimits_def list_all_iff)
qed

lemma route_refused:
  "\<not> withinLimits parts \<Longrightarrow> uploadFields routeFields [] parts = Inl MulterError"
  by (rule uploadFields_refused) (auto simp: route_limits not_le)

lemma route_accepted:
  assumes "withinLimits parts"
  shows "\<exists>files. uploadFields routeFields [] parts = Inr files
           \<and> masterUpload files = masterPart parts \<and> orderUploads files = orderParts parts"
proof -
  from uploadFields_accepted[OF assms[unfolded route_limits], of "[]"] obtain files where
    files: "uploadFields routeFields [] parts = Inr files"
      "\<forall>f. map_get files f =
           (if filter (\<lambda>p. fst p = f) parts = [] then None
            else Some (map snd (filter (\<lambda>p. fst p = f) parts)))"
    by (auto simp: map_get_def)
  have "masterUpload files = masterPart parts"
    using files(2)[rule_format, of "''masterFile''"]
    by (auto simp: masterUpload_def masterPart_def split: list.splits)
  moreover have "orderUploads files = orderParts parts"
    using files(2)[rule_format, of "''orderFiles''"]
    by (auto simp: orderUploads_def orderParts_def)
  ultimately show ?thesis using files(1) by blast
qed


text \<open>The batch processor reads only the mapping table and the combo table.\<close>

lemma expandComboSku_tables:
  assumes "skuToMsku md = skuToMsku md'" and "comboSkus md = comboSkus md'"
  shows "expandComboSku md = expandComboSku md'"
proof (intro ext)
  fix sku mk
  show "expandComboSku md sku mk = expandComboSku md' sku mk"
    unfolding expandComboSku_def mapSkuToMsku_def comboByRaw_def assms by (rule refl)
qed

lemma orderRow_tables:
  assumes "skuToMsku md = skuToMsku md'" and "comboSkus md = comboSkus md'"
  shows "orderRow md mk = orderRow md' mk"
proof (intro ext)
  fix b order
  show "orderRow md mk b order = orderRow md' mk b order"
    unfolding orderRow_def expandComboSku_tables[OF assms] by (rule refl)
qed

lemma orderFile_tables:
  "skuToMsku md = skuToMsku md' \<Longrightarrow> comboSkus md = comboSkus md' \<Longrightarrow>
   orderFile md = orderFile md'"
  by (simp add: fun_eq_iff orderFile_def processOrderData_def orderRow_tables[of md md'])

lemma combineEntry_distinct:
  "distinct (map fst c) \<Longrightarrow> distinct (map fst (foldl combineEntry c es))"
  by (induction es arbitrary: c) (simp_all add: combineEntry_def Let_def map_set_distinct)

lemma orderFiles_distinct:
  "distinct (map fst (combinedMsquMap acc)) \<Longrightarrow>
   distinct (map fst (combinedMsquMap (foldl (orderFile md) acc files)))"
  by (induction files arbitrary: acc) (simp_all add: orderFile_def Let_def combineEntry_distinct)

lemma requestQuantities_distinct: "distinct (map fst (requestQuantities parts md))"
  by (simp add: requestQuantities_def orderFiles_distinct)

lemma orderFilesLoop_eq:
  "orderFilesLoop md acc files =
     (if Unreadable \<in> set files then Inl IOError
      else Inr (foldl (orderFile md) acc (parsedRows files)))"
  by (induction md acc files rule: orderFilesLoop.induct) auto

text \<open>Loading a master file touches neither the working ledger nor the snapshot.\<close>

lemma masterRow_inventories:
  "currentInventory (masterRow md r) = currentInventory md"
  "originalInventory (masterRow md r) = originalInventory md"
  by (simp_all add: masterRow_def Let_def)

lemma loadMasterData_inventories:
  "currentInventory (loadMasterData data md) = currentInventory md"
  "originalInventory (loadMasterData data md) = originalInventory md"
  by (induction data rule: rev_induct) (simp_all add: loadMasterData_def masterRow_inventories)

lemma resetInventory_eq:
  "ledgerAligned md \<Longrightarrow> resetInventory md = md\<lparr>currentInventory := originalInventory md\<rparr>"
  using resetInventory_aligned[of md] by (simp add: ledgerAligned_def resetInventory_def)

text \<open>From the reset on, the handler reads the working ledger only through the reset.\<close>

lemma body_failed:
  "Unreadable \<in> set files \<Longrightarrow> processOrdersBody files md = (ServerError, resetInventory md)"
  by (simp add: processOrdersBody_def orderFilesLoop_eq)

lemma body_state:
  assumes "Unreadable \<notin> set files"
  shows "snd (processOrdersBody files md) =
     snd (updateInventoryWithSales
            (combinedMsquMap (foldl (orderFile md)
               \<lparr>allProcessedOrders = [], combinedMsquMap = [], allUnmappedSkus = [],
                marketplaceSummary = []\<rparr> (parsedRows files)))
            (resetInventory md))"
    and "\<exists>s u p n. fst (processOrdersBody files md) = Success s u p n"
proof -
  have "orderFile (resetInventory md) = orderFile md"
    by (rule orderFile_tables) (simp_all add: resetInventory_rest)
  with assms show "snd (processOrdersBody files md) =
     snd (updateInventoryWithSales
            (combinedMsquMap (foldl (orderFile md)
               \<lparr>allProcessedOrders = [], combinedMsquMap = [], allUnmappedSkus = [],
                marketplaceSummary = []\<rparr> (parsedRows files)))
            (resetInventory md))"
    by (simp add: processOrdersBody_def orderFilesLoop_eq Let_def)
  from assms show "\<exists>s u p n. fst (processOrdersBody files md) = Success s u p n"
    by (simp add: processOrdersBody_def orderFilesLoop_eq Let_def)
qed

lemma body_current_independent:
  assumes "ledgerAligned md" and "map fst cur = map fst (originalInventory md)"
  shows "processOrdersBody files (md\<lparr>currentInventory := cur\<rparr>) = processOrdersBody files md"
proof -
  have "ledgerAligned (md\<lparr>currentInventory := cur\<rparr>)" using assms by (simp add: ledgerAligned_def)
  from resetInventory_eq[OF this] resetInventory_eq[OF assms(1)]
  have "resetInventory (md\<lparr>currentInventory := cur\<rparr>) = resetInventory md" by simp
  then show ?thesis by (simp add: processOrdersBody_def)
qed

lemma update_lookup:
  assumes "distinct (map fst m)"
  shows "map_get (currentInventory (snd (updateInventoryWithSales m md))) k =
     (case map_get (currentInventory md) k of
        None \<Rightarrow> None
      | Some it \<Rightarrow>
          (case map_get m k of
             None \<Rightarrow> Some it
           | Some q \<Rightarrow> Some (it\<lparr>currentStock := Math_max (Num 0) (js_sub (currentStock it) (Num q))\<rparr>)))"
proof (cases "map_get m k")
  case None
  then have "k \<notin> fst ` set m" by (simp add: map_get_def map_of_eq_None_iff)
  from sales_fold_untouched[OF this, of "(md, [])"] None show ?thesis
    by (simp add: update_state split: option.splits)
next
  case (Some q)
  then have "(k, q) \<in> set m" by (simp add: map_get_def map_of_SomeD)
  from sales_fold_found[OF assms this, of "(md, [])"] Some show ?thesis
    by (simp add: update_state split: option.splits)
qed


lemma masterRow_current_update:
  "masterRow (md\<lparr>currentInventory := cur\<rparr>) r = (masterRow md r)\<lparr>currentInventory := cur\<rparr>"
  by (simp add: masterRow_def Let_def)

lemma loadMasterData_current_update:
  "loadMasterData data (md\<lparr>currentInventory := cur\<rparr>)
     = (loadMasterData data md)\<lparr>currentInventory := cur\<rparr>"
  by (induction data rule: rev_induct) (simp_all add: loadMasterData_def masterRow_current_update)

lemma loadMasterData_aligned: "ledgerAligned md \<Longrightarrow> ledgerAligned (loadMasterData data md)"
  by (simp add: ledgerAligned_def loadMasterData_inventories)

lemma body_post:
  assumes "ledgerAligned md"
  shows "Unreadable \<notin> set files \<Longrightarrow>
         map_get (currentInventory (snd (processOrdersBody files md))) k =
           (case map_get (originalInventory md) k of
              None \<Rightarrow> None
            | Some it \<Rightarrow>
                (case map_get (combinedMsquMap (foldl (orderFile md)
                         \<lparr>allProcessedOrders = [], combinedMsquMap = [], allUnmappedSkus = [],
                          marketplaceSummary = []\<rparr> (parsedRows files))) k of
                   None \<Rightarrow> Some it
                 | Some q \<Rightarrow>
                     Some (it\<lparr>currentStock := Math_max (Num 0) (js_sub (currentStock it) (Num q))\<rparr>)))"
    and "Unreadable \<in> set files \<Longrightarrow>
         currentInventory (snd (processOrdersBody files md)) = originalInventory md"
    and "originalInventory (snd (processOrdersBody files md)) = originalInventory md"
    and "ledgerAligned (snd (processOrdersBody files md))"
proof -
  let ?q = "combinedMsquMap (foldl (orderFile md)
                         \<lparr>allProcessedOrders = [], combinedMsquMap = [], allUnmappedSkus = [],
                          marketplaceSummary = []\<rparr> (parsedRows files))"
  have d: "distinct (map fst ?q)" by (simp add: orderFiles_distinct)
  have cur: "currentInventory (resetInventory md) = originalInventory md"
    using resetInventory_eq[OF assms] by simp
  show "map_get (currentInventory (snd (processOrdersBody files md))) k =
           (case map_get (originalInventory md) k of
              None \<Rightarrow> None
            | Some it \<Rightarrow>
                (case map_get ?q k of
                   None \<Rightarrow> Some it
                 | Some q \<Rightarrow>
                     Some (it\<lparr>currentStock := Math_max (Num 0) (js_sub (currentStock it) (Num q))\<rparr>)))"
    if "Unreadable \<notin> set files"
    using update_lookup[OF d, of "resetInventory md" k] by (simp add: body_state(1)[OF that] cur)
  show "currentInventory (snd (processOrdersBody files md)) = originalInventory md"
    if "Unreadable \<in> set files"
    by (simp add: body_failed[OF that] cur)
  show o: "originalInventory (snd (processOrdersBody files md)) = originalInventory md"
  proof (cases "Unreadable \<in> set files")
    case True
    then show ?thesis by (simp add: body_failed resetInventory_rest)
  next
    case False
    then show ?thesis by (simp add: body_state(1) update_state sales_fold_rest resetInventory_rest)
  qed
  have "map fst (currentInventory (snd (processOrdersBody files md))) = map fst (originalInventory md)"
  proof (cases "Unreadable \<in> set files")
    case True
    then show ?thesis by (simp add: body_failed cur)
  next
    case False
    then show ?thesis by (simp add: body_state(1) update_state sales_fold_keys cur)
  qed
  with o assms show "ledgerAligned (snd (processOrdersBody files md))"
    by (simp add: ledgerAligned_def)
qed

lemma route_run:
  assumes "withinLimits parts"
  shows "processOrders (Multipart parts) md =
     (case masterPart parts of
        Some Unreadable \<Rightarrow> (ServerError, md)
      | Some (Parsed data) \<Rightarrow> processOrdersBody (orderParts parts) (loadMasterData data md)
      | None \<Rightarrow>
          if skuToMsku md = [] then (BadRequest, md)
          else processOrdersBody (orderParts parts) md)"
proof -
  from route_accepted[OF assms] obtain files where
    f: "uploadFields routeFields [] parts = Inr files"
    and m: "masterUpload files = masterPart parts" and o: "orderUploads files = orderParts parts"
    by blast
  have "processOrders (Multipart parts) md = handleProcessOrders files md"
    by (simp add: processOrders_def f)
  then show ?thesis unfolding handleProcessOrders_def m o by simp
qed

text \<open>Every state the server reaches has its ledger aligned with its snapshot: the
  initial state has, and the loaders, the reconciler, the reset and the route keep
  it.\<close>

lemma initial_aligned: "ledgerAligned initialMasterData"
  by (simp add: ledgerAligned_def initialMasterData_def)

lemma comboRow_inventories:
  "currentInventory (comboRow md r) = currentInventory md"
  "originalInventory (comboRow md r) = originalInventory md"
  by (simp_all add: comboRow_def Let_def del: upt_rec_numeral)

lemma loadComboData_aligned: "ledgerAligned md \<Longrightarrow> ledgerAligned (loadComboData data md)"
proof (induction data rule: rev_induct)
  case Nil
  then show ?case by (simp add: loadComboData_def)
next
  case (snoc r data)
  then show ?case by (simp add: loadComboData_def ledgerAligned_def comboRow_inventories)
qed

lemma map_set_aligned:
  "distinct (map fst orig) \<Longrightarrow> map fst cur = map fst orig \<Longrightarrow>
   distinct (map fst (map_set orig k v)) \<and> map fst (map_set cur k w) = map fst (map_set orig k v)"
  by (simp add: keys_map_set)

lemma inventoryRow_aligned: "ledgerAligned md \<Longrightarrow> ledgerAligned (snd (inventoryRow i r md))"
  by (simp add: inventoryRow_def Let_def ledgerAligned_def map_set_aligned)

lemma inventoryRows_aligned: "ledgerAligned md \<Longrightarrow> ledgerAligned (snd (inventoryRows i rs md))"
proof (induction rs arbitrary: i md)
  case Nil
  then show ?case by simp
next
  case (Cons r rs)
  obtain e md' where step: "inventoryRow i r md = (e, md')" by (cases "inventoryRow i r md")
  from inventoryRow_aligned[OF Cons.prems, of i r] step have al: "ledgerAligned md'" by simp
  show ?case
  proof (cases e)
    case None
    with step Cons.IH[OF al, of "Suc i"] show ?thesis by simp
  next
    case (Some err)
    with step al show ?thesis by simp
  qed
qed

lemma loadCurrentInventory_aligned:
  "ledgerAligned md \<Longrightarrow> ledgerAligned (snd (loadCurrentInventory data md))"
  by (simp add: loadCurrentInventory_def inventoryRows_aligned)

lemma applyOp_aligned: "ledgerAligned md \<Longrightarrow> ledgerAligned (applyOp md op)"
  using applyOp_keys[of md op] applyOp_original[of md op] by (simp add: ledgerAligned_def)



text \<open>
  Claim C10, as amended. A \<open>/process-orders\<close> request gets as far as the reset exactly
  when its body is multipart, its file parts are within the upload limits of the route,
  its master file (if it has one) can be read, and it has a master file or the mapping
  table is not empty. Such a request resets the working ledger from the snapshot before it
  processes any order file: its response and the state it leaves do not depend on the
  working ledger it found. When all its order files can be read, it succeeds, and
  afterwards every item of the snapshot is in the ledger with
  \<open>currentStock = max(0, snapshot stock - quantity)\<close> when the request's aggregated
  quantities name it and with the snapshot's stock otherwise; when an order file cannot be
  read, it is answered 500 and the ledger equals the snapshot. In either case the snapshot
  is unchanged, so decrements of earlier requests never add up. Every other request is
  answered without a reset and leaves the state as it found it: status 500 for a body that
  is not multipart, for file parts beyond the limits and for an unreadable master file,
  status 400 when there is no master file and the mapping table is empty.
\<close>

theorem C10_request_reset:
  assumes "ledgerAligned md"
  shows "processOrders NonMultipart md = (ServerError, md)
   \<and> (\<not> withinLimits parts \<longrightarrow> processOrders (Multipart parts) md = (ServerError, md))
   \<and> (withinLimits parts \<and> masterPart parts = Some Unreadable \<longrightarrow>
         processOrders (Multipart parts) md = (ServerError, md))
   \<and> (withinLimits parts \<and> masterPart parts = None \<and> skuToMsku md = [] \<longrightarrow>
         processOrders (Multipart parts) md = (BadRequest, md))
   \<and> (withinLimits parts \<and> reachesReset parts md \<longrightarrow>
        (\<forall>cur. map fst cur = map fst (originalInventory md) \<longrightarrow>
            processOrders (Multipart parts) (md\<lparr>currentInventory := cur\<rparr>)
              = processOrders (Multipart parts) md)
        \<and> (Unreadable \<notin> set (orderParts parts) \<longrightarrow>
              (\<exists>s u p n. fst (processOrders (Multipart parts) md) = Success s u p n)
              \<and> (\<forall>k. map_get (currentInventory (snd (processOrders (Multipart parts) md))) k =
                (case map_get (originalInventory md) k of
                   None \<Rightarrow> None
                 | Some it \<Rightarrow>
                     (case map_get (requestQuantities parts md) k of
                        None \<Rightarrow> Some it
                      | Some q \<Rightarrow>
                          Some (it\<lparr>currentStock :=
                                   Math_max (Num 0) (js_sub (currentStock it) (Num q))\<rparr>)))))
        \<and> (Unreadable \<in> set (orderParts parts) \<longrightarrow>
              fst (processOrders (Multipart parts) md) = ServerError
              \<and> currentInventory (snd (processOrders (Multipart parts) md)) = originalInventory md)
        \<and> originalInventory (snd (processOrders (Multipart parts) md)) = originalInventory md
        \<and> ledgerAligned (snd (processOrders (Multipart parts) md)))"
proof (intro conjI impI)
  show "processOrders NonMultipart md = (ServerError, md)" by (simp add: processOrders_def)
next
  assume "\<not> withinLimits parts"
  from route_refused[OF this] show "processOrders (Multipart parts) md = (ServerError, md)"
    by (simp add: processOrders_def)
next
  assume "withinLimits parts \<and> masterPart parts = Some Unreadable"
  then show "processOrders (Multipart parts) md = (ServerError, md)" by (simp add: route_run)
next
  assume "withinLimits parts \<and> masterPart parts = None \<and> skuToMsku md = []"
  then show "processOrders (Multipart parts) md = (BadRequest, md)" by (simp add: route_run)
next
  assume h: "withinLimits parts \<and> reachesReset parts md"
  let ?mdT = "case masterPart parts of Some (Parsed data) \<Rightarrow> loadMasterData data md | _ \<Rightarrow> md"
  have run: "processOrders (Multipart parts) md = processOrdersBody (orderParts parts) ?mdT"
    using h by (auto simp: route_run reachesReset_def split: option.splits upload.splits)
  have al: "ledgerAligned ?mdT"
    using assms by (auto simp: loadMasterData_aligned split: option.splits upload.splits)
  have orig: "originalInventory ?mdT = originalInventory md"
    by (simp add: loadMasterData_inventories split: option.splits upload.splits)
  have q: "requestQuantities parts md = combinedMsquMap (foldl (orderFile ?mdT)
                         \<lparr>allProcessedOrders = [], combinedMsquMap = [], allUnmappedSkus = [],
                          marketplaceSummary = []\<rparr> (parsedRows (orderParts parts)))"
    by (simp add: requestQuantities_def)
  show "\<forall>cur. map fst cur = map fst (originalInventory md) \<longrightarrow>
            processOrders (Multipart parts) (md\<lparr>currentInventory := cur\<rparr>)
              = processOrders (Multipart parts) md"
  proof (intro allI impI)
    fix cur :: "(string, inventoryData) jsmap"
    assume k: "map fst cur = map fst (originalInventory md)"
    have "reachesReset parts (md\<lparr>currentInventory := cur\<rparr>)"
      using h by (simp add: reachesReset_def split: option.splits upload.splits)
    with h have "processOrders (Multipart parts) (md\<lparr>currentInventory := cur\<rparr>)
            = processOrdersBody (orderParts parts) (?mdT\<lparr>currentInventory := cur\<rparr>)"
      by (auto simp: route_run reachesReset_def loadMasterData_current_update
               split: option.splits upload.splits)
    also have "\<dots> = processOrdersBody (orderParts parts) ?mdT"
      using body_current_independent[OF al, of cur "orderParts parts"] k orig by simp
    finally show "processOrders (Multipart parts) (md\<lparr>currentInventory := cur\<rparr>)
                    = processOrders (Multipart parts) md"
      by (simp add: run)
  qed
  show "\<exists>s u p n. fst (processOrders (Multipart parts) md) = Success s u p n"
    if "Unreadable \<notin> set (orderParts parts)"
    unfolding run by (rule body_state(2)[OF that])
  show "\<forall>k. map_get (currentInventory (snd (processOrders (Multipart parts) md))) k =
                (case map_get (originalInventory md) k of
                   None \<Rightarrow> None
                 | Some it \<Rightarrow>
                     (case map_get (requestQuantities parts md) k of
                        None \<Rightarrow> Some it
                      | Some q \<Rightarrow>
                          Some (it\<lparr>currentStock :=
                                   Math_max (Num 0) (js_sub (currentStock it) (Num q))\<rparr>)))"
    if "Unreadable \<notin> set (orderParts parts)"
    unfolding run q using body_post(1)[OF al that] unfolding orig by (rule allI)
  show "fst (processOrders (Multipart parts) md) = ServerError"
    if "Unreadable \<in> set (orderParts parts)"
    unfolding run by (simp add: body_failed[OF that])
  show "currentInventory (snd (processOrders (Multipart parts) md)) = originalInventory md"
    if "Unreadable \<in> set (orderParts parts)"
    unfolding run using body_post(2)[OF al that] by (simp add: orig)
  show "originalInventory (snd (processOrders (Multipart parts) md)) = originalInventory md"
    using body_post(3)[OF al, of "orderParts parts"] by (simp add: run orig)
  show "ledgerAligned (snd (processOrders (Multipart parts) md))"
    using body_post(4)[OF al, of "orderParts parts"] by (simp add: run)
qed


text \<open>Claim C10 as stated fails for a request that ends before the reset. A first
  request uploads a master file without any mapping and sells 2 of the 10 units of \<open>M1\<close>.
  A second request without files finds the mapping table empty and is answered 400 before
  the reset: the ledger still shows 8 units although the snapshot holds 10 and the request
  sold nothing, while the same request sent right after the load leaves 10 units. A
  request without a multipart body leaves the 8 units as well.\<close>

theorem C10_rejected_request_counterexample:
  "fst (processOrders (Multipart []) (snd (processOrders
            (Multipart [(''masterFile'', Parsed []),
                        (''orderFiles'', Parsed [[(''sku'', JStr ''M1''), (''quantity'', JNum (Num 2)),
                                                  (''status'', JStr ''Delivered'')]])])
            (snd (loadCurrentInventory
               [[(''MSKU'', JStr ''M1''), (''Opening Stock'', JNum (Num 10))]] initialMasterData))))) = BadRequest
   \<and> map (\<lambda>e. (fst e, currentStock (snd e)))
        (currentInventory (snd (processOrders (Multipart []) (snd (processOrders
            (Multipart [(''masterFile'', Parsed []),
                        (''orderFiles'', Parsed [[(''sku'', JStr ''M1''), (''quantity'', JNum (Num 2)),
                                                  (''status'', JStr ''Delivered'')]])])
            (snd (loadCurrentInventory
               [[(''MSKU'', JStr ''M1''), (''Opening Stock'', JNum (Num 10))]] initialMasterData)))))))
       = [(''M1'', Num 8)]
   \<and> map (\<lambda>e. (fst e, currentStock (snd e)))
        (originalInventory (snd (processOrders (Multipart []) (snd (processOrders
            (Multipart [(''masterFile'', Parsed []),
                        (''orderFiles'', Parsed [[(''sku'', JStr ''M1''), (''quantity'', JNum (Num 2)),
                                                  (''status'', JStr ''Delivered'')]])])
            (snd (loadCurrentInventory
               [[(''MSKU'', JStr ''M1''), (''Opening Stock'', JNum (Num 10))]] initialMasterData)))))))
       = [(''M1'', Num 10)]
   \<and> map (\<lambda>e. (fst e, currentStock (snd e)))
        (currentInventory (snd (processOrders (Multipart []) (snd (loadCurrentInventory
               [[(''MSKU'', JStr ''M1''), (''Opening Stock'', JNum (Num 10))]] initialMasterData)))))
       = [(''M1'', Num 10)]
   \<and> requestQuantities [] (snd (processOrders
            (Multipart [(''masterFile'', Parsed []),
                        (''orderFiles'', Parsed [[(''sku'', JStr ''M1''), (''quantity'', JNum (Num 2)),
                                                  (''status'', JStr ''Delivered'')]])])
            (snd (loadCurrentInventory
               [[(''MSKU'', JStr ''M1''), (''Opening Stock'', JNum (Num 10))]] initialMasterData)))) = []
   \<and> map (\<lambda>e. (fst e, currentStock (snd e)))
        (currentInventory (snd (processOrders NonMultipart (snd (processOrders
            (Multipart [(''masterFile'', Parsed []),
                        (''orderFiles'', Parsed [[(''sku'', JStr ''M1''), (''quantity'', JNum (Num 2)),
                                                  (''status'', JStr ''Delivered'')]])])
            (snd (loadCurrentInventory
               [[(''MSKU'', JStr ''M1''), (''Opening Stock'', JNum (Num 10))]] initialMasterData)))))))
       = [(''M1'', Num 8)]"
  by code_simp

text \<open>C10 at a request that sells 2 units of \<open>M1\<close>, sent twice: the ledger shows 8 of the
  10 units after the first request and 8 again, not 6, after the second. A request with
  eleven order files is beyond the limits: it is answered 500 and the 8 units stay.\<close>

theorem C10_request_reset_witness:
  "ledgerAligned (snd (processOrders (Multipart
       [(''masterFile'', Parsed [[(''sku'', JStr ''A1''), (''msku'', JStr ''M1'')]]),
        (''orderFiles'', Parsed [[(''sku'', JStr ''A1''), (''quantity'', JNum (Num 2)),
                                  (''status'', JStr ''Delivered'')]])])
      (snd (loadCurrentInventory
               [[(''MSKU'', JStr ''M1''), (''Opening Stock'', JNum (Num 10))]] initialMasterData))))
   \<and> withinLimits [(''masterFile'', Parsed [[(''sku'', JStr ''A1''), (''msku'', JStr ''M1'')]]),
        (''orderFiles'', Parsed [[(''sku'', JStr ''A1''), (''quantity'', JNum (Num 2)),
                                  (''status'', JStr ''Delivered'')]])]
   \<and> reachesReset [(''masterFile'', Parsed [[(''sku'', JStr ''A1''), (''msku'', JStr ''M1'')]]),
        (''orderFiles'', Parsed [[(''sku'', JStr ''A1''), (''quantity'', JNum (Num 2)),
                                  (''status'', JStr ''Delivered'')]])] (snd (processOrders (Multipart
       [(''masterFile'', Parsed [[(''sku'', JStr ''A1''), (''msku'', JStr ''M1'')]]),
        (''orderFiles'', Parsed [[(''sku'', JStr ''A1''), (''quantity'', JNum (Num 2)),
                                  (''status'', JStr ''Delivered'')]])])
      (snd (loadCurrentInventory
               [[(''MSKU'', JStr ''M1''), (''Opening Stock'', JNum (Num 10))]] initialMasterData))))
   \<and> Unreadable \<notin> set (orderParts [(''masterFile'', Parsed [[(''sku'', JStr ''A1''), (''msku'', JStr ''M1'')]]),
        (''orderFiles'', Parsed [[(''sku'', JStr ''A1''), (''quantity'', JNum (Num 2)),
                                  (''status'', JStr ''Delivered'')]])])
   \<and> map_option currentStock (map_get (currentInventory (snd (processOrders (Multipart
       [(''masterFile'', Parsed [[(''sku'', JStr ''A1''), (''msku'', JStr ''M1'')]]),
        (''orderFiles'', Parsed [[(''sku'', JStr ''A1''), (''quantity'', JNum (Num 2)),
                                  (''status'', JStr ''Delivered'')]])])
      (snd (loadCurrentInventory
               [[(''MSKU'', JStr ''M1''), (''Opening Stock'', JNum (Num 10))]] initialMasterData))))) ''M1'') = Some (Num 8)
   \<and> map_option currentStock (map_get (currentInventory (snd (processOrders (Multipart
        [(''masterFile'', Parsed [[(''sku'', JStr ''A1''), (''msku'', JStr ''M1'')]]),
        (''orderFiles'', Parsed [[(''sku'', JStr ''A1''), (''quantity'', JNum (Num 2)),
                                  (''status'', JStr ''Delivered'')]])]) (snd (processOrders (Multipart
       [(''masterFile'', Parsed [[(''sku'', JStr ''A1''), (''msku'', JStr ''M1'')]]),
        (''orderFiles'', Parsed [[(''sku'', JStr ''A1''), (''quantity'', JNum (Num 2)),
                                  (''status'', JStr ''Delivered'')]])])
      (snd (loadCurrentInventory
               [[(''MSKU'', JStr ''M1''), (''Opening Stock'', JNum (Num 10))]] initialMasterData))))))) ''M1'') = Some (Num 8)
   \<and> \<not> withinLimits (replicate 11 (''orderFiles'', Parsed [[(''sku'', JStr ''A1''), (''quantity'', JNum (Num 2)),
                                                (''status'', JStr ''Delivered'')]]))
   \<and> fst (processOrders (Multipart (replicate 11 (''orderFiles'', Parsed [[(''sku'', JStr ''A1''), (''quantity'', JNum (Num 2)),
                                                (''status'', JStr ''Delivered'')]]))) (snd (processOrders (Multipart
       [(''masterFile'', Parsed [[(''sku'', JStr ''A1''), (''msku'', JStr ''M1'')]]),
        (''orderFiles'', Parsed [[(''sku'', JStr ''A1''), (''quantity'', JNum (Num 2)),
                                  (''status'', JStr ''Delivered'')]])])
      (snd (loadCurrentInventory
               [[(''MSKU'', JStr ''M1''), (''Opening Stock'', JNum (Num 10))]] initialMasterData))))) = ServerError
   \<and> map_option currentStock (map_get (currentInventory (snd (processOrders (Multipart
        (replicate 11 (''orderFiles'', Parsed [[(''sku'', JStr ''A1''), (''quantity'', JNum (Num 2)),
                                                (''status'', JStr ''Delivered'')]]))) (snd (processOrders (Multipart
       [(''masterFile'', Parsed [[(''sku'', JStr ''A1''), (''msku'', JStr ''M1'')]]),
        (''orderFiles'', Parsed [[(''sku'', JStr ''A1''), (''quantity'', JNum (Num 2)),
                                  (''status'', JStr ''Delivered'')]])])
      (snd (loadCurrentInventory
               [[(''MSKU'', JStr ''M1''), (''Opening Stock'', JNum (Num 10))]] initialMasterData))))))) ''M1'') = Some (Num 8)"
proof -
  let ?parts = "[(''masterFile'', Parsed [[(''sku'', JStr ''A1''), (''msku'', JStr ''M1'')]]),
        (''orderFiles'', Parsed [[(''sku'', JStr ''A1''), (''quantity'', JNum (Num 2)),
                                  (''status'', JStr ''Delivered'')]])]"
  let ?p11 = "(replicate 11 (''orderFiles'', Parsed [[(''sku'', JStr ''A1''), (''quantity'', JNum (Num 2)),
                                                (''status'', JStr ''Delivered'')]]))"
  let ?md1 = "(snd (loadCurrentInventory
               [[(''MSKU'', JStr ''M1''), (''Opening Stock'', JNum (Num 10))]] initialMasterData))"
  let ?md8 = "snd (processOrders (Multipart ?parts) ?md1)"
  have al: "ledgerAligned ?md8" unfolding ledgerAligned_def by code_simp
  have w: "withinLimits ?parts" by code_simp
  have r: "reachesReset ?parts ?md8" by (simp add: reachesReset_def masterPart_def)
  have u: "Unreadable \<notin> set (orderParts ?parts)" by (simp add: orderParts_def)
  have before: "map_option currentStock (map_get (currentInventory ?md8) ''M1'') = Some (Num 8)"
    by code_simp
  have rhs: "map_option currentStock
      (case map_get (originalInventory ?md8) ''M1'' of
         None \<Rightarrow> None
       | Some it \<Rightarrow>
           (case map_get (requestQuantities ?parts ?md8) ''M1'' of
              None \<Rightarrow> Some it
            | Some q \<Rightarrow>
                Some (it\<lparr>currentStock := Math_max (Num 0) (js_sub (currentStock it) (Num q))\<rparr>)))
      = Some (Num 8)"
    by code_simp
  note eq = C10_request_reset[OF al, of ?parts, THEN conjunct2, THEN conjunct2, THEN conjunct2,
      THEN conjunct2, THEN mp, OF conjI[OF w r], THEN conjunct2, THEN conjunct1, THEN mp, OF u,
      THEN conjunct2, THEN spec, of "''M1''"]
  have after: "map_option currentStock
      (map_get (currentInventory (snd (processOrders (Multipart ?parts) ?md8))) ''M1'') = Some (Num 8)"
    using arg_cong[OF eq, of "map_option currentStock"] rhs by (rule trans)
  have w11: "\<not> withinLimits ?p11" by code_simp
  note refused = C10_request_reset[OF al, of ?p11, THEN conjunct2, THEN conjunct1, THEN mp, OF w11]
  have r1: "fst (processOrders (Multipart ?p11) ?md8) = ServerError"
    by (simp only: refused fst_conv)
  have r2: "map_option currentStock
      (map_get (currentInventory (snd (processOrders (Multipart ?p11) ?md8))) ''M1'') = Some (Num 8)"
    by (simp only: refused snd_conv before)
  show ?thesis
    by (intro conjI) (rule al, rule w, rule r, rule u, rule before, rule after, rule w11, rule r1, rule r2)
qed

end
